theory Spec2Isabelle
  imports Complex_Main "HOL-Library.Word"
begin

section \<open>JavaScript strings and values\<close>

text \<open>
  The two handlers of \<^verbatim>\<open>server/routes.ts\<close> inspect the submitted text with
  \<^verbatim>\<open>String.prototype.includes\<close>, \<^verbatim>\<open>match\<close> and \<^verbatim>\<open>trim\<close>. A JavaScript string is
  a sequence of 16-bit code units, and that is what these operations count, so a string is
  a list of 16-bit words. \<open>str\<close> turns an ASCII literal into such a list; the glyphs of
  the console templates that are not ASCII are written as code units.
\<close>

type_synonym jsstring = "16 word list"

definition str :: "string \<Rightarrow> jsstring" where
  "str cs = map of_char cs"

text \<open>
  The values that travel in a JSON body (test-case inputs and expected values), with
  \<open>JUndefined\<close> for a property that the object does not have.
\<close>

datatype jsvalue =
    JUndefined
  | JNull
  | JBool bool
  | JNumber real
  | JString jsstring
  | JArray "jsvalue list"
  | JObject "(jsstring \<times> jsvalue) list"

subsection \<open>\<^verbatim>\<open>includes\<close>, \<^verbatim>\<open>trim\<close>, \<^verbatim>\<open>join\<close>\<close>

fun starts_with :: "jsstring \<Rightarrow> jsstring \<Rightarrow> bool" where
  "starts_with s [] = True"
| "starts_with [] (p # ps) = False"
| "starts_with (c # cs) (p # ps) = (c = p \<and> starts_with cs ps)"

text \<open>\<^verbatim>\<open>s.includes(p)\<close>: \<open>p\<close> occurs in \<open>s\<close> at some index.\<close>

fun js_includes :: "jsstring \<Rightarrow> jsstring \<Rightarrow> bool" where
  "js_includes [] p = starts_with [] p"
| "js_includes (c # cs) p = (starts_with (c # cs) p \<or> js_includes cs p)"

text \<open>
  The class \<^verbatim>\<open>\s\<close> of a regular expression without the unicode flag, which is also
  the set of code units that \<^verbatim>\<open>trim\<close> strips: WhiteSpace and LineTerminator.
\<close>

definition is_space :: "16 word \<Rightarrow> bool" where
  "is_space c =
     (c \<in> set [0x09, 0x0A, 0x0B, 0x0C, 0x0D, 0x20, 0xA0, 0x1680,
                0x2028, 0x2029, 0x202F, 0x205F, 0x3000, 0xFEFF]
      \<or> (0x2000 \<le> c \<and> c \<le> 0x200A))"

text \<open>\<^verbatim>\<open>\d\<close> is \<^verbatim>\<open>[0-9]\<close>, \<^verbatim>\<open>\w\<close> is \<^verbatim>\<open>[A-Za-z0-9_]\<close>, and \<^verbatim>\<open>["']\<close> the two quotes.\<close>

definition is_digit :: "16 word \<Rightarrow> bool" where
  "is_digit c = (0x30 \<le> c \<and> c \<le> 0x39)"

definition is_word :: "16 word \<Rightarrow> bool" where
  "is_word c =
     ((0x41 \<le> c \<and> c \<le> 0x5A) \<or> (0x61 \<le> c \<and> c \<le> 0x7A) \<or> is_digit c \<or> c = 0x5F)"

definition is_quote :: "16 word \<Rightarrow> bool" where
  "is_quote c = (c = 0x22 \<or> c = 0x27)"

definition js_trim :: "jsstring \<Rightarrow> jsstring" where
  "js_trim s = rev (dropWhile is_space (rev (dropWhile is_space s)))"

text \<open>\<^verbatim>\<open>xs.join(sep)\<close> on an array of strings.\<close>

fun js_join :: "jsstring \<Rightarrow> jsstring list \<Rightarrow> jsstring" where
  "js_join sep [] = []"
| "js_join sep [x] = x"
| "js_join sep (x # y # ys) = x @ sep @ js_join sep (y # ys)"

subsection \<open>Regular expressions\<close>

text \<open>
  \<^verbatim>\<open>code.match(re)\<close> with a regular expression that has no flag tries the pattern at
  index 0, 1, ... and returns the first match; inside the pattern a quantifier takes as
  many characters as it can and gives them back one at a time when the rest fails. The
  matchers below are that backtracking search in continuation-passing style: a matcher
  takes the text from the current index on and the continuation that matches the rest of
  the pattern, and returns the captured group 1 of the match, or \<open>None\<close>.
\<close>

text \<open>A literal run of characters.\<close>

fun lit :: "jsstring \<Rightarrow> jsstring \<Rightarrow> (jsstring \<Rightarrow> 'a option) \<Rightarrow> 'a option" where
  "lit [] s k = k s"
| "lit (p # ps) [] k = None"
| "lit (p # ps) (c # cs) k = (if p = c then lit ps cs k else None)"

text \<open>One character of a class.\<close>

fun one :: "(16 word \<Rightarrow> bool) \<Rightarrow> jsstring \<Rightarrow> (jsstring \<Rightarrow> 'a option) \<Rightarrow> 'a option" where
  "one P [] k = None"
| "one P (c # cs) k = (if P c then k cs else None)"

text \<open>\<^verbatim>\<open>X*\<close>, greedy: the longest run first, then shorter ones.\<close>

fun star :: "(16 word \<Rightarrow> bool) \<Rightarrow> jsstring \<Rightarrow> (jsstring \<Rightarrow> 'a option) \<Rightarrow> 'a option" where
  "star P [] k = k []"
| "star P (c # cs) k =
     (if P c then (case star P cs k of Some r \<Rightarrow> Some r | None \<Rightarrow> k (c # cs))
      else k (c # cs))"

text \<open>\<^verbatim>\<open>X+\<close> is \<^verbatim>\<open>XX*\<close>.\<close>

definition plus :: "(16 word \<Rightarrow> bool) \<Rightarrow> jsstring \<Rightarrow> (jsstring \<Rightarrow> 'a option) \<Rightarrow> 'a option" where
  "plus P s k = one P s (\<lambda>s'. star P s' k)"

text \<open>\<^verbatim>\<open>(X+)\<close>, greedy, handing the captured text and the rest to the continuation.\<close>

fun plus_capture ::
  "(16 word \<Rightarrow> bool) \<Rightarrow> jsstring \<Rightarrow> (jsstring \<Rightarrow> jsstring \<Rightarrow> 'a option) \<Rightarrow> 'a option" where
  "plus_capture P [] k = None"
| "plus_capture P (c # cs) k =
     (if P c
      then (case plus_capture P cs (\<lambda>cap rest. k (c # cap) rest) of
              Some r \<Rightarrow> Some r
            | None \<Rightarrow> k [c] cs)
      else None)"

text \<open>The search over the start index.\<close>

fun js_match :: "(jsstring \<Rightarrow> 'a option) \<Rightarrow> jsstring \<Rightarrow> 'a option" where
  "js_match m [] = m []"
| "js_match m (c # cs) = (case m (c # cs) of Some r \<Rightarrow> Some r | None \<Rightarrow> js_match m cs)"

text \<open>
  \<^verbatim>\<open>/name\s*=\s*["']([^"']+)["']/\<close>, and the same for \<^verbatim>\<open>city\<close> and
  \<^verbatim>\<open>profession\<close>: the pattern with the variable's name as a parameter.
\<close>

definition quoted_binding :: "jsstring \<Rightarrow> jsstring \<Rightarrow> jsstring option" where
  "quoted_binding var s =
     lit var s (\<lambda>s. star is_space s (\<lambda>s. lit (str ''='') s (\<lambda>s. star is_space s
       (\<lambda>s. one is_quote s (\<lambda>s. plus_capture (\<lambda>c. \<not> is_quote c) s
         (\<lambda>cap s. one is_quote s (\<lambda>s. Some cap)))))))"

text \<open>\<^verbatim>\<open>/age\s*=\s*(\d+)/\<close>\<close>

definition age_binding :: "jsstring \<Rightarrow> jsstring option" where
  "age_binding s =
     lit (str ''age'') s (\<lambda>s. star is_space s (\<lambda>s. lit (str ''='') s (\<lambda>s. star is_space s
       (\<lambda>s. plus_capture is_digit s (\<lambda>cap s. Some cap)))))"

text \<open>\<^verbatim>\<open>/def\s+(\w+)/\<close>\<close>

definition def_name :: "jsstring \<Rightarrow> jsstring option" where
  "def_name s =
     lit (str ''def'') s (\<lambda>s. plus is_space s (\<lambda>s. plus_capture is_word s (\<lambda>cap s. Some cap)))"

subsection \<open>Numbers\<close>

text \<open>
  \<^verbatim>\<open>parseInt\<close> is only called on the group \<^verbatim>\<open>(\d+)\<close>, a run of decimal digits; the
  model gives the number the digits denote. The runtime rounds it to a double, which is
  exact below \<open>2^53\<close> and never turns a positive number into zero.
\<close>

definition parseInt :: "jsstring \<Rightarrow> nat" where
  "parseInt s = foldl (\<lambda>n c. 10 * n + unat (c - 0x30)) 0 (takeWhile is_digit s)"

function decimal :: "nat \<Rightarrow> jsstring" where
  "decimal n = (if n < 10 then [0x30 + of_nat n] else decimal (n div 10) @ [0x30 + of_nat (n mod 10)])"
  by pat_completeness auto
termination
  by (relation "measure id") auto

text \<open>
  What the handlers take from the runtime: the value \<^verbatim>\<open>Math.random()\<close> returns in
  this request, and the text of a number that is not an integer below \<open>2^53\<close> in
  absolute value (the shortest-digits algorithm of \<^verbatim>\<open>Number.prototype.toString\<close>,
  which no handler's verdict depends on).
\<close>

record runtime =
  math_random :: real
  number_text :: "real \<Rightarrow> jsstring"

definition number_to_string :: "runtime \<Rightarrow> real \<Rightarrow> jsstring" where
  "number_to_string rt x =
     (if x \<in> \<int> \<and> \<bar>x\<bar> < 2 ^ 53
      then (if x < 0 then str ''-'' else []) @ decimal (nat \<lfloor>\<bar>x\<bar>\<rfloor>)
      else number_text rt x)"

text \<open>
  \<^verbatim>\<open>String(v)\<close> and the conversion that \<^verbatim>\<open>join\<close> applies to an element; \<open>None\<close>
  is a TypeError thrown. Inside an array, \<^verbatim>\<open>join\<close> turns \<^verbatim>\<open>null\<close> and
  \<^verbatim>\<open>undefined\<close> into the empty string. An object parsed from JSON is converted by
  the method found under \<^verbatim>\<open>toString\<close>: the one of \<^verbatim>\<open>Object.prototype\<close>, which
  gives \<^verbatim>\<open>[object Object]\<close>, unless the object has a key \<^verbatim>\<open>toString\<close> of its own.
  The value under such a key is JSON data, not a function, and \<^verbatim>\<open>valueOf\<close> (its own
  data, or the inherited method that returns the object) gives no primitive value
  either, so the conversion throws.
\<close>

fun to_string :: "runtime \<Rightarrow> jsvalue \<Rightarrow> jsstring option" where
  "to_string rt JUndefined = Some (str ''undefined'')"
| "to_string rt JNull = Some (str ''null'')"
| "to_string rt (JBool b) = Some (if b then str ''true'' else str ''false'')"
| "to_string rt (JNumber x) = Some (number_to_string rt x)"
| "to_string rt (JString s) = Some s"
| "to_string rt (JArray vs) =
     map_option (js_join (str '',''))
       (those (map (\<lambda>v. if v = JNull \<or> v = JUndefined then Some [] else to_string rt v) vs))"
| "to_string rt (JObject kvs) =
     (if str ''toString'' \<in> set (map fst kvs) then None else Some (str ''[object Object]''))"

subsection \<open>The simulated execution time\<close>

text \<open>
  \<^verbatim>\<open>Math.floor(Math.random() * 100) + 50\<close>. The product is a product of doubles: the
  exact product rounded to the nearest double, ties to even. \<open>ulp x\<close> is the distance of
  the doubles around \<open>x\<close> (53 significant bits, \<open>2^-1074\<close> among the subnormals), and
  a real is a double when rounding leaves it as it is. The floor of the product is below
  100, so adding 50 is exact.
\<close>

definition ulp :: "real \<Rightarrow> real" where
  "ulp x = 2 powr (real_of_int (max \<lfloor>log 2 \<bar>x\<bar>\<rfloor> (- 1022)) - 52)"

definition round_half_even :: "real \<Rightarrow> int" where
  "round_half_even q =
     (let f = \<lfloor>q\<rfloor> in
      if q - of_int f < 1 / 2 then f
      else if 1 / 2 < q - of_int f then f + 1
      else if even f then f else f + 1)"

definition to_double :: "real \<Rightarrow> real" where
  "to_double x = (if x = 0 then 0 else of_int (round_half_even (x / ulp x)) * ulp x)"

definition is_double :: "real \<Rightarrow> bool" where
  "is_double x = (to_double x = x)"

definition double_times :: "real \<Rightarrow> real \<Rightarrow> real" where
  "double_times x y = to_double (x * y)"

definition random_execution_time :: "runtime \<Rightarrow> int" where
  "random_execution_time rt = \<lfloor>double_times (math_random rt) 100\<rfloor> + 50"

text \<open>\<^verbatim>\<open>Math.random()\<close> returns a double that is at least 0 and less than 1.\<close>

definition runtime_ok :: "runtime \<Rightarrow> bool" where
  "runtime_ok rt = (is_double (math_random rt) \<and> 0 \<le> math_random rt \<and> math_random rt < 1)"

section \<open>What both handlers share\<close>

subsection \<open>Requests, results, the database\<close>

text \<open>
  A test case is an object with an \<^verbatim>\<open>input\<close> and an \<^verbatim>\<open>expected\<close> value. The
  per-case result echoes both and adds its own fields (\<open>case_error\<close> is its
  \<^verbatim>\<open>error\<close>); \<^verbatim>\<open>null\<close> in \<open>actual\<close> is \<open>JNull\<close>, in an error field it is \<open>None\<close>.
\<close>

record testcase =
  input :: jsvalue
  expected :: jsvalue

record test_result = testcase +
  test_case :: nat
  passed :: bool
  actual :: jsvalue
  case_error :: "jsstring option"

record execute_result =
  success :: bool
  execution_time :: int
  test_results :: "test_result list"
  outputMessage :: jsstring
  error :: "jsstring option"

record progress_update =
  is_completed :: bool
  attempts :: int
  best_time :: "int option"

text \<open>The body of \<^verbatim>\<open>/api/submit-solution\<close> has the same fields and \<^verbatim>\<open>progress\<close>.\<close>

record submit_result = execute_result +
  progress :: progress_update

text \<open>
  The request bodies. \<open>None\<close> is a field the body does not carry: the first use of it
  throws a TypeError, which the handler's \<^verbatim>\<open>catch\<close> answers with status 500. A field
  that is there has the type the client sends: \<^verbatim>\<open>code\<close> a string, \<^verbatim>\<open>test_cases\<close>
  an array of test-case objects.
\<close>

record request =
  body_code :: "jsstring option"

record execute_request = request +
  body_test_cases :: "testcase list option"

record submit_request = request +
  body_problem_id :: int
  body_user_id :: jsstring

text \<open>A response that is not the evaluation: the status and the JSON body.\<close>

datatype http_error = HttpError nat jsvalue

text \<open>
  The tables of \<^verbatim>\<open>shared/schema.ts\<close> that concern a submission: \<^verbatim>\<open>problems\<close> (the
  columns the handler reads, \<^verbatim>\<open>testCases\<close> holding an array of test-case objects) and
  \<^verbatim>\<open>user_progress\<close>.
\<close>

record problem_row =
  row_id :: int
  lessonId :: int
  title :: jsstring
  starterCode :: jsstring
  solution :: jsstring
  testCases :: "testcase list"
  xpReward :: int

record user_progress_row =
  userId :: jsstring
  problemId :: int
  isCompleted :: bool
  attempts :: int
  bestTime :: "int option"
  hintsUsed :: int

record database =
  problems :: "problem_row list"
  userProgress :: "user_progress_row list"

subsection \<open>Structure and content checks\<close>

definition let_message :: jsstring where
  \<open>let_message = str ''Python uses variable assignment without 'let' keyword. Use: name = "value"''\<close>

definition has_function :: "jsstring \<Rightarrow> bool" where
  "has_function code = js_includes code (str ''def '')"

definition has_return :: "jsstring \<Rightarrow> bool" where
  "has_return code = js_includes code (str ''return'')"

text \<open>
  \<^verbatim>\<open>if (failed) { errors.push(msg); valid = false; }\<close> on the pair of the validation
  flag and the error list.
\<close>

definition reject :: "bool \<Rightarrow> jsstring \<Rightarrow> bool \<times> jsstring list \<Rightarrow> bool \<times> jsstring list" where
  "reject failed msg st = (if failed then (False, snd st @ [msg]) else st)"

text \<open>\<^verbatim>\<open>!m || m[1].trim() === ''\<close> and \<^verbatim>\<open>!m || parseInt(m[1]) <= 0\<close>\<close>

definition blank :: "jsstring option \<Rightarrow> bool" where
  "blank m = (case m of None \<Rightarrow> True | Some v \<Rightarrow> js_trim v = [])"

definition not_positive :: "jsstring option \<Rightarrow> bool" where
  "not_positive m = (case m of None \<Rightarrow> True | Some d \<Rightarrow> parseInt d \<le> 0)"

text \<open>
  The four checks of the business-card rule. Both handlers run the same block, each with
  its own four messages.
\<close>

definition business_card_check ::
  "jsstring \<Rightarrow> jsstring \<Rightarrow> jsstring \<Rightarrow> jsstring \<Rightarrow> jsstring \<Rightarrow> bool \<times> jsstring list
     \<Rightarrow> bool \<times> jsstring list" where
  "business_card_check name_msg age_msg city_msg profession_msg code st =
     (let nameMatch = js_match (quoted_binding (str ''name'')) code;
          ageMatch = js_match age_binding code;
          cityMatch = js_match (quoted_binding (str ''city'')) code;
          professionMatch = js_match (quoted_binding (str ''profession'')) code;
          st = reject (blank nameMatch) name_msg st;
          st = reject (not_positive ageMatch) age_msg st;
          st = reject (blank cityMatch) city_msg st;
          st = reject (blank professionMatch) profession_msg st
      in st)"

subsection \<open>The console transcript\<close>

text \<open>\<^verbatim>\<open>functionMatch ? functionMatch[1] : 'your_function'\<close>\<close>

definition function_name :: "jsstring \<Rightarrow> jsstring" where
  "function_name code =
     (case js_match def_name code of Some name \<Rightarrow> name | None \<Rightarrow> str ''your_function'')"

text \<open>
  The tuple of the four values read back from the code,
  \<^verbatim>\<open>('${actualValues[0]}', ${actualValues[1]}, '${actualValues[2]}', '${actualValues[3]}')\<close>.
\<close>

definition business_card_display :: "runtime \<Rightarrow> jsstring \<Rightarrow> jsstring" where
  "business_card_display rt code =
     (let nameMatch = js_match (quoted_binding (str ''name'')) code;
          ageMatch = js_match age_binding code;
          cityMatch = js_match (quoted_binding (str ''city'')) code;
          professionMatch = js_match (quoted_binding (str ''profession'')) code;
          v0 = (case nameMatch of Some v \<Rightarrow> v | None \<Rightarrow> str ''unknown'');
          v1 = (case ageMatch of Some d \<Rightarrow> real (parseInt d) | None \<Rightarrow> 0);
          v2 = (case cityMatch of Some v \<Rightarrow> v | None \<Rightarrow> str ''unknown'');
          v3 = (case professionMatch of Some v \<Rightarrow> v | None \<Rightarrow> str ''unknown'')
      in str ''('' @ [0x27] @ v0 @ [0x27] @ str '', '' @ number_to_string rt v1 @ str '', ''
           @ [0x27] @ v2 @ [0x27] @ str '', '' @ [0x27] @ v3 @ [0x27] @ str '')'')"

definition console_top :: jsstring where
  "console_top =
     [0x0A]
     @ [0x250C, 0x2500] @ str '' Python Console '' @ replicate 33 0x2500 @ [0x2510, 0x0A]
     @ [0x2502] @ str ''                                                  '' @ [0x2502, 0x0A]"

definition console_bottom :: jsstring where
  "console_bottom =
     [0x2502] @ str ''                                                  '' @ [0x2502, 0x0A]
     @ [0x2514] @ replicate 50 0x2500 @ [0x2518, 0x0A]
     @ [0x0A]"

text \<open>The first lines of a successful transcript, the same in both handlers.\<close>

definition console_call :: "jsstring \<Rightarrow> jsstring \<Rightarrow> jsstring" where
  "console_call functionName resultDisplay =
     console_top
     @ [0x2502] @ str ''  >>> '' @ functionName @ str ''()                           '' @ [0x2502, 0x0A]
     @ [0x2502] @ str ''  '' @ resultDisplay @ str ''                                '' @ [0x2502, 0x0A]
     @ console_bottom"

text \<open>The first lines of a failed transcript.\<close>

definition console_error :: "jsstring \<Rightarrow> jsstring" where
  "console_error message =
     console_top
     @ [0x2502] @ str ''  >>> Running your code...                       '' @ [0x2502, 0x0A]
     @ [0x2502] @ str ''  Error: '' @ message @ str ''                          '' @ [0x2502, 0x0A]
     @ console_bottom"

text \<open>The four lines of the checklist, a cross (\<open>0x274C\<close>) or a tick (\<open>0x2705\<close>) each.\<close>

definition code_analysis :: "bool \<Rightarrow> bool \<Rightarrow> bool \<Rightarrow> bool \<Rightarrow> jsstring" where
  "code_analysis hasFunction hasReturn hasValidPythonSyntax contentValidation =
     str ''    Code Analysis:'' @ [0x0A]
     @ str ''    ''
     @ (if \<not> hasFunction then str ''    '' @ [0x274C] @ str '' Function definition: Missing''
        else str ''    '' @ [0x2705] @ str '' Function definition: Complete'') @ [0x0A]
     @ str ''    ''
     @ (if \<not> hasReturn then str ''    '' @ [0x274C] @ str '' Return statement: Missing''
        else str ''    '' @ [0x2705] @ str '' Return statement: Present'') @ [0x0A]
     @ str ''    ''
     @ (if \<not> hasValidPythonSyntax then str ''    '' @ [0x274C] @ str '' Python syntax: Invalid''
        else str ''    '' @ [0x2705] @ str '' Python syntax: Valid'') @ [0x0A]
     @ str ''    ''
     @ (if \<not> contentValidation then str ''    '' @ [0x274C] @ str '' Variable assignments: Invalid''
        else str ''    '' @ [0x2705] @ str '' Variable assignments: Valid'') @ [0x0A]"

section \<open>\<^verbatim>\<open>POST /api/execute-code\<close>\<close>

definition const_message :: jsstring where
  \<open>const_message = str ''Python doesn't use 'const'. Use: variable = value''\<close>

definition var_message :: jsstring where
  \<open>var_message = str ''Python doesn't use 'var'. Use: variable = value''\<close>

definition syntax_errors_execute :: "jsstring \<Rightarrow> jsstring list" where
  "syntax_errors_execute code =
     (if js_includes code (str ''let '') then [let_message] else [])
     @ (if js_includes code (str ''const '') then [const_message] else [])
     @ (if js_includes code (str ''var '') then [var_message] else [])"

text \<open>The content check runs when the code mentions \<^verbatim>\<open>create_business_card\<close>.\<close>

definition content_check_execute :: "jsstring \<Rightarrow> bool \<times> jsstring list" where
  "content_check_execute code =
     (if js_includes code (str ''create_business_card'')
      then business_card_check
             (str ''Name must be a non-empty string'')
             (str ''Age must be a positive number'')
             (str ''City must be a non-empty string'')
             (str ''Profession must be a non-empty string'')
             code (True, [])
      else (True, []))"

text \<open>
  \<^verbatim>\<open>test_cases[0]?.expected\<close>, which is \<^verbatim>\<open>undefined\<close> when there is no test case.
\<close>

definition first_expected :: "testcase list \<Rightarrow> jsvalue" where
  "first_expected test_cases = (case test_cases of [] \<Rightarrow> JUndefined | t # _ \<Rightarrow> expected t)"

text \<open>
  For a function of another name the transcript shows the first test case's expected
  value: an array as a tuple, its strings quoted and its other elements as \<^verbatim>\<open>join\<close>
  converts them; a string quoted; anything else as \<^verbatim>\<open>String\<close> gives it. \<open>None\<close> is
  the TypeError of a conversion that throws.
\<close>

definition expected_display :: "runtime \<Rightarrow> testcase list \<Rightarrow> jsstring option" where
  "expected_display rt test_cases =
     (let expectedResult = first_expected test_cases in
      case expectedResult of
        JArray vs \<Rightarrow>
          map_option (\<lambda>items. str ''('' @ js_join (str '', '') items @ str '')'')
            (those (map (\<lambda>val. case val of
                                  JString v \<Rightarrow> Some ([0x27] @ v @ [0x27])
                                | JNull \<Rightarrow> Some []
                                | JUndefined \<Rightarrow> Some []
                                | _ \<Rightarrow> to_string rt val) vs))
      | JString v \<Rightarrow> Some ([0x27] @ v @ [0x27])
      | _ \<Rightarrow> to_string rt expectedResult)"

definition primary_error_execute :: "jsstring list \<Rightarrow> jsstring list \<Rightarrow> bool \<Rightarrow> bool \<Rightarrow> jsstring" where
  "primary_error_execute syntaxErrors contentErrors hasFunction hasReturn =
     (if 0 < length syntaxErrors then syntaxErrors ! 0
      else if 0 < length contentErrors then contentErrors ! 0
      else if \<not> hasFunction then str ''Missing function definition''
      else if \<not> hasReturn then str ''Missing return statement''
      else str ''Unknown error'')"

definition success_transcript_execute :: "jsstring \<Rightarrow> jsstring \<Rightarrow> jsstring" where
  "success_transcript_execute functionName resultDisplay =
     console_call functionName resultDisplay
     @ str ''    '' @ [0x2705] @ str '' Execution Successful'' @ [0x0A]
     @ str ''    '' @ [0x0A]
     @ str ''    Your function ran without errors and returned:'' @ [0x0A]
     @ str ''    '' @ resultDisplay @ [0x0A]
     @ str ''    '' @ [0x0A]
     @ str ''    Ready to submit your solution!''"

definition failure_transcript_execute ::
  "jsstring \<Rightarrow> bool \<Rightarrow> bool \<Rightarrow> bool \<Rightarrow> bool \<Rightarrow> jsstring" where
  "failure_transcript_execute primaryError hasFunction hasReturn hasValidPythonSyntax contentValidation =
     console_error primaryError
     @ str ''    '' @ [0x274C] @ str '' Execution Failed'' @ [0x0A]
     @ str ''    '' @ [0x0A]
     @ code_analysis hasFunction hasReturn hasValidPythonSyntax contentValidation
     @ str ''    '' @ [0x0A]
     @ str ''    Issue Details:'' @ [0x0A]
     @ str ''    '' @ primaryError @ [0x0A]
     @ str ''    '' @ [0x0A]
     @ str ''    Fix the above issues and try again.''"

text \<open>
  The handler's \<^verbatim>\<open>try\<close> block, for a body that carries both fields. The transcript
  is built before the result object; when a conversion in it throws, the block is left
  and there is no result (\<open>None\<close>).
\<close>

definition evaluate_execute :: "runtime \<Rightarrow> jsstring \<Rightarrow> testcase list \<Rightarrow> execute_result option" where
  "evaluate_execute rt code test_cases =
     (let syntaxErrors = syntax_errors_execute code;
          hasFunction = has_function code;
          hasReturn = has_return code;
          hasValidPythonSyntax = (length syntaxErrors = 0);
          (contentValidation, contentErrors) = content_check_execute code;
          success = (hasFunction \<and> hasReturn \<and> hasValidPythonSyntax \<and> contentValidation);
          outputMessage =
            (if success then
               (let functionName = function_name code;
                    resultDisplay =
                      (if functionName = str ''create_business_card''
                       then Some (business_card_display rt code)
                       else expected_display rt test_cases)
                in map_option (success_transcript_execute functionName) resultDisplay)
             else
               (let primaryError = primary_error_execute syntaxErrors contentErrors hasFunction hasReturn
                in Some (failure_transcript_execute primaryError hasFunction hasReturn
                     hasValidPythonSyntax contentValidation)))
      in map_option
           (\<lambda>outputMessage.
              \<lparr> success = success,
                execution_time = random_execution_time rt,
                test_results =
                  map (\<lambda>(index, testCase).
                         \<lparr> input = input testCase,
                           expected = expected testCase,
                           test_case = index + 1,
                           passed = success,
                           actual = (if success then expected testCase else JNull),
                           case_error =
                             (if success then None
                              else if 0 < length syntaxErrors then Some (syntaxErrors ! 0)
                              else Some (str ''Function implementation incomplete'')) \<rparr>)
                      (enumerate 0 test_cases),
                outputMessage = outputMessage,
                error = (if 0 < length syntaxErrors then Some (js_join (str ''. '') syntaxErrors)
                         else None) \<rparr>)
           outputMessage)"

text \<open>The body the \<^verbatim>\<open>catch\<close> block sends with status 500.\<close>

definition execution_failed :: http_error where
  "execution_failed =
     HttpError 500 (JObject
       [(str ''success'', JBool False),
        (str ''error'', JString (str ''Code execution failed'')),
        (str ''execution_time'', JNumber 0),
        (str ''test_results'', JArray []),
        (str ''output'', JString (str ''Console Output:'' @ [0x0A]
           @ str ''>>> Error executing code'' @ [0x0A]
           @ str ''Internal server error occurred''))])"

text \<open>
  The handler: whatever the \<^verbatim>\<open>try\<close> block throws, a missing field or a conversion
  of the transcript, is answered by the \<^verbatim>\<open>catch\<close> block.
\<close>

definition execute_code :: "runtime \<Rightarrow> execute_request \<Rightarrow> http_error + execute_result" where
  "execute_code rt req =
     (case body_code req of
        None \<Rightarrow> Inl execution_failed
      | Some code \<Rightarrow>
          (case body_test_cases req of
             None \<Rightarrow> Inl execution_failed
           | Some test_cases \<Rightarrow>
               (case evaluate_execute rt code test_cases of
                  None \<Rightarrow> Inl execution_failed
                | Some result \<Rightarrow> Inr result)))"

text \<open>
  The requests with both fields that the handler answers with status 500, stated on the
  request. \<open>convertible v\<close> says that \<^verbatim>\<open>String(v)\<close> returns: no object that the
  conversion reaches has a key \<^verbatim>\<open>toString\<close>. The \<^verbatim>\<open>try\<close> block throws exactly when
  the code passes all four checks, defines a function of another name than
  \<^verbatim>\<open>create_business_card\<close>, and the first expected value is not convertible (lemma
  \<open>evaluate_execute_None\<close> below).
\<close>

fun convertible :: "jsvalue \<Rightarrow> bool" where
  "convertible (JArray vs) = list_all convertible vs"
| "convertible (JObject kvs) = (str ''toString'' \<notin> set (map fst kvs))"
| "convertible v = True"

definition try_block_throws :: "jsstring \<Rightarrow> testcase list \<Rightarrow> bool" where
  "try_block_throws code test_cases =
     (has_function code \<and> has_return code \<and> syntax_errors_execute code = []
      \<and> fst (content_check_execute code)
      \<and> function_name code \<noteq> str ''create_business_card''
      \<and> \<not> convertible (first_expected test_cases))"

section \<open>\<^verbatim>\<open>POST /api/submit-solution\<close>\<close>

definition const_or_var_message :: jsstring where
  \<open>const_or_var_message = str ''Python doesn't use 'const' or 'var'. Use: variable = value''\<close>

definition syntax_errors_submit :: "jsstring \<Rightarrow> jsstring list" where
  "syntax_errors_submit code =
     (if js_includes code (str ''let '') then [let_message] else [])
     @ (if js_includes code (str ''const '') \<or> js_includes code (str ''var '')
        then [const_or_var_message] else [])"

text \<open>The content check runs for the problem titled \<^verbatim>\<open>Personal Information Card\<close>.\<close>

definition content_check_submit :: "problem_row \<Rightarrow> jsstring \<Rightarrow> bool \<times> jsstring list" where
  "content_check_submit problemData code =
     (if title problemData = str ''Personal Information Card''
      then business_card_check
             (str ''Name variable must be assigned a non-empty string value'')
             (str ''Age variable must be assigned a positive number'')
             (str ''City variable must be assigned a non-empty string value'')
             (str ''Profession variable must be assigned a non-empty string value'')
             code (True, [])
      else (True, []))"

definition missing_function_message :: jsstring where
  \<open>missing_function_message = str ''Missing function definition. Use 'def function_name():'' @ [0x27]\<close>

text \<open>\<^verbatim>\<open>errorMessage\<close> starts as \<^verbatim>\<open>null\<close> and the first branch that applies sets it.\<close>

definition error_message_submit ::
  "jsstring list \<Rightarrow> bool \<Rightarrow> bool \<Rightarrow> jsstring list \<Rightarrow> jsstring option" where
  "error_message_submit syntaxErrors hasFunction hasReturn validationErrors =
     (if 0 < length syntaxErrors then Some (syntaxErrors ! 0)
      else if \<not> hasFunction then Some missing_function_message
      else if \<not> hasReturn then Some (str ''Missing return statement'')
      else if 0 < length validationErrors then Some (validationErrors ! 0)
      else None)"

text \<open>A hole of a template literal that holds \<^verbatim>\<open>errorMessage\<close>.\<close>

definition message_text :: "jsstring option \<Rightarrow> jsstring" where
  "message_text m = (case m of None \<Rightarrow> str ''null'' | Some e \<Rightarrow> e)"

definition success_transcript_submit :: "jsstring \<Rightarrow> jsstring \<Rightarrow> jsstring \<Rightarrow> jsstring" where
  "success_transcript_submit functionName resultDisplay executionTime =
     console_call functionName resultDisplay
     @ str ''    '' @ [0xD83C, 0xDF89] @ str '' Problem Completed Successfully!'' @ [0x0A]
     @ str ''    '' @ [0x0A]
     @ str ''    Test Results:'' @ [0x0A]
     @ str ''    '' @ [0x2705] @ str '' Function definition: Complete'' @ [0x0A]
     @ str ''    '' @ [0x2705] @ str '' Return statement: Present  '' @ [0x0A]
     @ str ''    '' @ [0x2705] @ str '' Variable assignments: Valid'' @ [0x0A]
     @ str ''    '' @ [0x2705] @ str '' All test cases: Passed'' @ [0x0A]
     @ str ''    '' @ [0x0A]
     @ str ''    Execution time: '' @ executionTime @ str ''ms'' @ [0x0A]
     @ str ''    '' @ [0x0A]
     @ str ''    Great work! You can now:'' @ [0x0A]
     @ str ''    '' @ [0x2022] @ str '' Navigate to the next problem'' @ [0x0A]
     @ str ''    '' @ [0x2022] @ str '' Return to dashboard to see progress'' @ [0x0A]
     @ str ''    '' @ [0x2022] @ str '' Continue your Python journey''"

definition failure_transcript_submit ::
  "jsstring \<Rightarrow> bool \<Rightarrow> bool \<Rightarrow> bool \<Rightarrow> bool \<Rightarrow> jsstring" where
  "failure_transcript_submit errorMessage hasFunction hasReturn hasValidPythonSyntax problemSpecificValidation =
     console_error errorMessage
     @ str ''    '' @ [0x274C] @ str '' Submission Failed'' @ [0x0A]
     @ str ''    '' @ [0x0A]
     @ code_analysis hasFunction hasReturn hasValidPythonSyntax problemSpecificValidation
     @ str ''    '' @ [0x0A]
     @ str ''    Issue Details:'' @ [0x0A]
     @ str ''    '' @ errorMessage @ [0x0A]
     @ str ''    '' @ [0x0A]
     @ str ''    Fix the above issues and try submitting again.''"

text \<open>The evaluation of the code against the problem row that the query found.\<close>

definition evaluate_submit :: "runtime \<Rightarrow> problem_row \<Rightarrow> jsstring \<Rightarrow> submit_result" where
  "evaluate_submit rt problemData code =
     (let syntaxErrors = syntax_errors_submit code;
          hasFunction = has_function code;
          hasReturn = has_return code;
          hasValidPythonSyntax = (length syntaxErrors = 0);
          (problemSpecificValidation, validationErrors) = content_check_submit problemData code;
          allPassed = (hasFunction \<and> hasReturn \<and> hasValidPythonSyntax \<and> problemSpecificValidation);
          errorMessage = error_message_submit syntaxErrors hasFunction hasReturn validationErrors;
          executionTime = random_execution_time rt;
          testResults =
            map (\<lambda>(index, testCase).
                   \<lparr> input = input testCase,
                     expected = expected testCase,
                     test_case = index + 1,
                     passed = allPassed,
                     actual = (if allPassed then expected testCase else JNull),
                     case_error = (if allPassed then None else errorMessage) \<rparr>)
                (enumerate 0 (testCases problemData));
          outputMessage =
            (if allPassed then
               success_transcript_submit (function_name code) (business_card_display rt code)
                 (number_to_string rt (real_of_int executionTime))
             else
               failure_transcript_submit (message_text errorMessage) hasFunction hasReturn
                 hasValidPythonSyntax problemSpecificValidation)
      in \<lparr> success = allPassed,
           execution_time = executionTime,
           test_results = testResults,
           outputMessage = outputMessage,
           error = (if allPassed then None else errorMessage),
           progress = \<lparr> is_completed = allPassed,
                        attempts = 1,
                        best_time = (if allPassed then Some executionTime else None) \<rparr> \<rparr>)"

definition submission_failed :: http_error where
  "submission_failed =
     HttpError 500 (JObject [(str ''error'', JString (str ''Failed to submit solution''))])"

definition problem_not_found :: http_error where
  "problem_not_found =
     HttpError 404 (JObject [(str ''error'', JString (str ''Problem not found''))])"

text \<open>
  The handler: the syntax scan comes first (and throws without a \<^verbatim>\<open>code\<close>), then the
  query \<^verbatim>\<open>select().from(problems).where(eq(problems.id, problem_id)).limit(1)\<close>, the
  answer 404 when it finds no row, and the evaluation. The query on \<^verbatim>\<open>problems\<close> is
  the only use the handler makes of the database, so the database is an argument of the
  model and the answer is its only result.
\<close>

definition submit_solution :: "runtime \<Rightarrow> database \<Rightarrow> submit_request \<Rightarrow> http_error + submit_result" where
  "submit_solution rt db req =
     (case body_code req of
        None \<Rightarrow> Inl submission_failed
      | Some code \<Rightarrow>
          (let problem = take 1 (filter (\<lambda>p. row_id p = body_problem_id req) (problems db)) in
           if length problem = 0 then Inl problem_not_found
           else Inr (evaluate_submit rt (problem ! 0) code)))"

section \<open>Sample data\<close>

text \<open>
  The submission of the passing business-card scenario, a runtime, and a database with the
  business-card problem and a progress row of an earlier, completed attempt. The theorems
  are instantiated at them.
\<close>

definition ann_code :: jsstring where
  \<open>ann_code =
     str ''def create_business_card():'' @ [0x0A]
     @ str ''  name = "Ann"'' @ [0x0A]
     @ str ''  age = 30'' @ [0x0A]
     @ str ''  city = "Linz"'' @ [0x0A]
     @ str ''  profession = "Engineer"'' @ [0x0A]
     @ str ''  return (name, age, city, profession)''\<close>

definition sample_runtime :: runtime where
  "sample_runtime = \<lparr> math_random = 1 / 2, number_text = (\<lambda>x. str ''NaN'') \<rparr>"

definition card_expected :: jsvalue where
  "card_expected =
     JArray [JString (str ''Ann''), JNumber 30, JString (str ''Linz''), JString (str ''Engineer'')]"

definition card_problem :: problem_row where
  "card_problem =
     \<lparr> row_id = 1, lessonId = 1, title = str ''Personal Information Card'',
       starterCode = str ''def create_business_card():'', solution = ann_code,
       testCases = [\<lparr> input = JArray [], expected = card_expected \<rparr>],
       xpReward = 50 \<rparr>"

definition sample_db :: database where
  "sample_db =
     \<lparr> problems = [card_problem],
       userProgress =
         [\<lparr> userId = str ''demo_user'', problemId = 1, isCompleted = True, attempts = 3,
            bestTime = Some 120, hintsUsed = 0 \<rparr>] \<rparr>"

definition execute_request_of :: "jsstring \<Rightarrow> execute_request" where
  "execute_request_of code =
     \<lparr> body_code = Some code, body_test_cases = Some (testCases card_problem) \<rparr>"

definition submit_request_of :: "jsstring \<Rightarrow> submit_request" where
  "submit_request_of code =
     \<lparr> body_code = Some code, body_problem_id = 1, body_user_id = str ''demo_user'' \<rparr>"

text \<open>The passing code with a line \<^verbatim>\<open>let x = 5\<close> after it.\<close>

definition let_code :: jsstring where
  "let_code = ann_code @ [0x0A] @ str ''let x = 5''"

text \<open>
  Failing submissions: a call without a definition, an assignment alone, and two foreign
  keywords in one text.
\<close>

definition call_code :: jsstring where
  "call_code = str ''create_business_card()''"

definition assignment_code :: jsstring where
  "assignment_code = str ''x = 1''"

definition let_const_code :: jsstring where
  "let_const_code = str ''let x = 1; const y = 2''"

text \<open>
  The scenario's code with the age binding \<^verbatim>\<open>age = -1\<close>, and with \<^verbatim>\<open>age = 2.5\<close>.
\<close>

definition minus_one_code :: jsstring where
  \<open>minus_one_code =
     str ''def create_business_card():'' @ [0x0A]
     @ str ''  name = "Ann"'' @ [0x0A]
     @ str ''  age = -1'' @ [0x0A]
     @ str ''  city = "Linz"'' @ [0x0A]
     @ str ''  profession = "Engineer"'' @ [0x0A]
     @ str ''  return (name, age, city, profession)''\<close>

definition fraction_code :: jsstring where
  \<open>fraction_code =
     str ''def create_business_card():'' @ [0x0A]
     @ str ''  name = "Ann"'' @ [0x0A]
     @ str ''  age = 2.5'' @ [0x0A]
     @ str ''  city = "Linz"'' @ [0x0A]
     @ str ''  profession = "Engineer"'' @ [0x0A]
     @ str ''  return (name, age, city, profession)''\<close>

text \<open>
  A passing submission of another function, with a numeric expected value; and a passing
  submission whose first expected value is an object with a key \<^verbatim>\<open>toString\<close>.
\<close>

definition add_code :: jsstring where
  "add_code = str ''def add(a, b):'' @ [0x0A] @ str ''    return a + b''"

definition add_cases :: "testcase list" where
  "add_cases = [\<lparr> input = JArray [JNumber 2, JNumber 3], expected = JNumber 5 \<rparr>]"

definition add_request :: execute_request where
  "add_request = \<lparr> body_code = Some add_code, body_test_cases = Some add_cases \<rparr>"

definition one_code :: jsstring where
  "one_code = str ''def f(): return 1''"

definition one_cases :: "testcase list" where
  "one_cases = [\<lparr> input = JNull, expected = JObject [(str ''toString'', JNumber 1)] \<rparr>]"

definition one_request :: execute_request where
  "one_request = \<lparr> body_code = Some one_code, body_test_cases = Some one_cases \<rparr>"

section \<open>Properties\<close>

subsection \<open>Strings\<close>

lemma starts_with_iff: "starts_with s p \<longleftrightarrow> (\<exists>r. s = p @ r)"
  by (induction s p rule: starts_with.induct) auto

text \<open>\<open>js_includes\<close> is the occurrence of the pattern somewhere in the text.\<close>

lemma js_includes_iff: "js_includes s p \<longleftrightarrow> (\<exists>a b. s = a @ p @ b)"
proof (induction s)
  case Nil
  then show ?case by (simp add: starts_with_iff)
next
  case (Cons c cs)
  show ?case
  proof
    assume "js_includes (c # cs) p"
    then consider "starts_with (c # cs) p" | "js_includes cs p" by auto
    then show "\<exists>a b. c # cs = a @ p @ b"
    proof cases
      case 1
      then obtain r where "c # cs = p @ r" by (auto simp: starts_with_iff)
      then have "c # cs = [] @ p @ r" by simp
      then show ?thesis by blast
    next
      case 2
      then obtain a b where "cs = a @ p @ b" using Cons.IH by blast
      then have "c # cs = (c # a) @ p @ b" by simp
      then show ?thesis by blast
    qed
  next
    assume "\<exists>a b. c # cs = a @ p @ b"
    then obtain a b where ab: "c # cs = a @ p @ b" by blast
    show "js_includes (c # cs) p"
    proof (cases a)
      case Nil
      with ab have "starts_with (c # cs) p" by (auto simp: starts_with_iff)
      then show ?thesis by simp
    next
      case (Cons x a')
      with ab have "cs = a' @ p @ b" by simp
      then have "js_includes cs p" using Cons.IH by blast
      then show ?thesis by simp
    qed
  qed
qed

subsection \<open>The execution time\<close>

lemma ulp_positive: "0 < ulp x"
  by (simp add: ulp_def)

lemma round_half_even_bounds:
  "real_of_int (round_half_even q) \<le> q + 1 / 2" "q - 1 / 2 \<le> real_of_int (round_half_even q)"
  unfolding round_half_even_def Let_def by (auto; linarith)+

lemma round_half_even_nonneg: "0 \<le> q \<Longrightarrow> 0 \<le> round_half_even q"
  unfolding round_half_even_def Let_def by (auto; linarith)

lemma to_double_upper: "to_double x \<le> x + ulp x / 2"
proof (cases "x = 0")
  case True
  then show ?thesis using ulp_positive [of 0] by (simp add: to_double_def)
next
  case False
  have "real_of_int (round_half_even (x / ulp x)) * ulp x \<le> (x / ulp x + 1 / 2) * ulp x"
    using round_half_even_bounds(1) [of "x / ulp x"] ulp_positive [of x]
    by (simp add: mult_right_mono)
  also have "\<dots> = x + ulp x / 2"
    using ulp_positive [of x] by (simp add: field_simps)
  finally show ?thesis using False by (simp add: to_double_def)
qed

lemma to_double_nonneg: "0 \<le> x \<Longrightarrow> 0 \<le> to_double x"
  using round_half_even_nonneg [of "x / ulp x"] ulp_positive [of x]
  by (simp add: to_double_def)

lemma floor_log2_less:
  assumes "0 < x" and "x < 2 ^ n"
  shows "\<lfloor>log 2 x\<rfloor> < int n"
proof -
  have "log 2 x < log 2 (2 ^ n)"
    using assms by (simp add: log_less_cancel_iff del: log_pow_cancel)
  then have "log 2 x < real n" by simp
  then show ?thesis by linarith
qed

text \<open>Below 128 the doubles are at most \<open>2^-46\<close> apart.\<close>

lemma ulp_below_128:
  assumes "0 < x" and "x < 128"
  shows "ulp x \<le> 1 / 2 ^ 46"
proof -
  have "\<lfloor>log 2 x\<rfloor> < int 7"
    using assms by (intro floor_log2_less) simp_all
  then have "real_of_int (max \<lfloor>log 2 \<bar>x\<bar>\<rfloor> (- 1022)) - 52 \<le> - 46"
    using assms by simp
  then have "ulp x \<le> 2 powr (- 46)"
    unfolding ulp_def by (simp only: powr_le_cancel_iff)
  also have "(2::real) powr (- 46) = 1 / 2 ^ 46"
    using powr_minus_divide [of "2::real" 46] by simp
  finally show ?thesis .
qed

text \<open>The largest double below 1 is \<open>1 - 2^-53\<close>.\<close>

lemma double_below_one:
  assumes d: "is_double x" and pos: "0 \<le> x" and less: "x < 1"
  shows "x \<le> 1 - 1 / 2 ^ 53"
proof (cases "x = 0")
  case True
  then show ?thesis by simp
next
  case False
  with pos have x: "0 < x" by simp
  define e where "e = max \<lfloor>log 2 \<bar>x\<bar>\<rfloor> (- 1022)"
  define n where "n = round_half_even (x / ulp x)"
  define t where "t = (2::real) powr (real_of_int e + 1)"
  have u: "ulp x = 2 powr (real_of_int e - 52)"
    by (simp add: ulp_def e_def)
  have xn: "x = real_of_int n * ulp x"
    using d False by (simp add: is_double_def to_double_def n_def)
  have "log 2 x < 0" using x less by simp
  then have "\<lfloor>log 2 x\<rfloor> \<le> - 1"
    by (simp add: floor_le_iff)
  then have e0: "e \<le> - 1" using x by (simp add: e_def)
  have t1: "0 < t" "t \<le> 1"
  proof -
    show "0 < t" by (simp add: t_def)
    have "t \<le> 2 powr 0"
      unfolding t_def using e0 by (simp only: powr_le_cancel_iff)
    then show "t \<le> 1" by simp
  qed
  have tu: "t = 2 ^ 53 * ulp x"
  proof -
    have "(2::real) powr (53 + (real_of_int e - 52)) = 2 powr 53 * 2 powr (real_of_int e - 52)"
      by (rule powr_add)
    moreover have "53 + (real_of_int e - 52) = real_of_int e + 1" by simp
    ultimately show ?thesis unfolding u t_def by simp
  qed
  have "log 2 x < real_of_int \<lfloor>log 2 x\<rfloor> + 1" by linarith
  also have "\<dots> \<le> real_of_int e + 1" using x by (simp add: e_def)
  finally have "log 2 x < real_of_int e + 1" .
  then have "x < t"
    unfolding t_def using x by (simp add: log_less_iff)
  then have "real_of_int n * ulp x < 2 ^ 53 * ulp x" using xn tu by simp
  then have "real_of_int n < 2 ^ 53"
    using ulp_positive [of x] by simp
  then have "real_of_int n < real_of_int (2 ^ 53)" by simp
  then have "n < 2 ^ 53" by (simp only: of_int_less_iff)
  then have "n \<le> 2 ^ 53 - 1" by simp
  then have "real_of_int n \<le> real_of_int (2 ^ 53 - 1)" by (simp only: of_int_le_iff)
  then have "real_of_int n \<le> 2 ^ 53 - 1" by simp
  then have "real_of_int n * ulp x \<le> (2 ^ 53 - 1) * ulp x"
    using ulp_positive [of x] by (simp only: mult_le_cancel_right_pos)
  then have "x \<le> (2 ^ 53 - 1) * ulp x" using xn by simp
  also have "\<dots> = t * (1 - 1 / 2 ^ 53)"
    unfolding tu by (simp add: algebra_simps)
  also have "\<dots> \<le> 1 * (1 - 1 / 2 ^ 53)"
    using t1 by (intro mult_right_mono) simp_all
  finally show ?thesis by simp
qed

lemma random_execution_time_range:
  assumes "runtime_ok rt"
  shows "50 \<le> random_execution_time rt \<and> random_execution_time rt < 150"
proof -
  define x where "x = math_random rt * 100"
  have r: "is_double (math_random rt)" "0 \<le> math_random rt" "math_random rt < 1"
    using assms by (simp_all add: runtime_ok_def)
  have x0: "0 \<le> x" using r by (simp add: x_def)
  have "math_random rt \<le> 1 - 1 / 2 ^ 53"
    using r by (rule double_below_one)
  then have xu: "x \<le> 100 - 100 / 2 ^ 53"
    by (simp add: x_def)
  have low: "0 \<le> to_double x"
    using x0 by (rule to_double_nonneg)
  have "to_double x < 100"
  proof (cases "x = 0")
    case True
    then show ?thesis by (simp add: to_double_def)
  next
    case False
    with x0 have "0 < x" by simp
    moreover have "x < 128" using xu by simp
    ultimately have "ulp x \<le> 1 / 2 ^ 46" by (rule ulp_below_128)
    then have "to_double x \<le> x + (1 / 2 ^ 46) / 2"
      using to_double_upper [of x] by simp
    also have "\<dots> \<le> 100 - 100 / 2 ^ 53 + (1 / 2 ^ 46) / 2"
      using xu by simp
    also have "\<dots> < 100"
      by simp
    finally show ?thesis .
  qed
  then have "\<lfloor>to_double x\<rfloor> < 100" by linarith
  moreover have "0 \<le> \<lfloor>to_double x\<rfloor>" using low by simp
  ultimately show ?thesis
    by (simp add: random_execution_time_def double_times_def x_def)
qed
text \<open>
  The runtime of the sample: \<^verbatim>\<open>Math.random()\<close> returned one half, a double, and the
  execution time is 100 milliseconds.
\<close>

lemma round_half_even_of_int: "round_half_even (real_of_int n) = n"
  by (simp add: round_half_even_def)

lemma to_double_half: "to_double (1 / 2) = 1 / 2"
proof -
  have "\<lfloor>log 2 (1 / 2 :: real)\<rfloor> = - 1"
    by (subst floor_log_eq_powr_iff) (simp_all add: powr_minus_divide)
  then have u: "ulp (1 / 2) = 2 powr (- 53)"
    by (simp add: ulp_def)
  have v: "(2::real) powr (- 53) = 1 / 2 ^ 53"
    using powr_minus_divide [of "2::real" 53] by simp
  have "round_half_even ((1 / 2) / ulp (1 / 2)) = 2 ^ 52"
    using round_half_even_of_int [of "2 ^ 52"] by (simp add: u v)
  then show ?thesis
    by (simp add: to_double_def u v)
qed

lemma to_double_50: "to_double 50 = 50"
proof -
  have "\<lfloor>log 2 (50 :: real)\<rfloor> = 5"
    by (subst floor_log_eq_powr_iff) simp_all
  then have u: "ulp 50 = 2 powr (- 47)"
    by (simp add: ulp_def)
  have v: "(2::real) powr (- 47) = 1 / 2 ^ 47"
    using powr_minus_divide [of "2::real" 47] by simp
  have "round_half_even (50 / ulp 50) = 50 * 2 ^ 47"
    using round_half_even_of_int [of "50 * 2 ^ 47"] by (simp add: u v)
  then show ?thesis
    by (simp add: to_double_def u v)
qed

lemma sample_runtime_ok: "runtime_ok sample_runtime"
  by (simp add: runtime_ok_def sample_runtime_def is_double_def to_double_half)

lemma sample_execution_time: "random_execution_time sample_runtime = 100"
  by (simp add: random_execution_time_def double_times_def sample_runtime_def to_double_50)

subsection \<open>The handlers answer with the evaluation\<close>

lemma those_map_None: "those (map f xs) = None \<longleftrightarrow> (\<exists>x\<in>set xs. f x = None)"
  by (induction xs) (auto split: option.splits)

text \<open>\<^verbatim>\<open>String(v)\<close> throws exactly on the values that are not convertible.\<close>

lemma to_string_None: "to_string rt v = None \<longleftrightarrow> \<not> convertible v"
proof (induction rt v rule: to_string.induct)
  case (6 rt vs)
  have "(\<exists>v\<in>set vs. (if v = JNull \<or> v = JUndefined then Some [] else to_string rt v) = None)
      \<longleftrightarrow> (\<exists>v\<in>set vs. \<not> convertible v)"
  proof (rule bex_cong [OF refl])
    fix v
    assume "v \<in> set vs"
    then show "((if v = JNull \<or> v = JUndefined then Some [] else to_string rt v) = None)
        \<longleftrightarrow> \<not> convertible v"
      using "6.IH" [of v] by auto
  qed
  then show ?case
    by (simp add: those_map_None list_all_iff)
qed simp_all

lemma expected_display_None:
  "expected_display rt tcs = None \<longleftrightarrow> \<not> convertible (first_expected tcs)"
proof (cases "first_expected tcs")
  case (JArray vs)
  have "(case val of
           JString v \<Rightarrow> Some ([0x27] @ v @ [0x27])
         | JNull \<Rightarrow> Some []
         | JUndefined \<Rightarrow> Some []
         | _ \<Rightarrow> to_string rt val) = None \<longleftrightarrow> \<not> convertible val" for val
    using to_string_None [of rt val] by (cases val) simp_all
  then show ?thesis
    using JArray by (simp add: expected_display_def those_map_None list_all_iff)
qed (simp_all add: expected_display_def to_string_None [symmetric])

text \<open>When the \<^verbatim>\<open>try\<close> block throws, and what the handler answers.\<close>

lemma evaluate_execute_None:
  "evaluate_execute rt code tcs = None \<longleftrightarrow> try_block_throws code tcs"
  by (cases "content_check_execute code")
    (auto simp: evaluate_execute_def Let_def try_block_throws_def expected_display_None)

lemma failure_does_not_throw:
  "\<not> (has_function code \<and> has_return code \<and> syntax_errors_execute code = []
      \<and> fst (content_check_execute code)) \<Longrightarrow> \<not> try_block_throws code tcs"
  by (auto simp: try_block_throws_def)

lemma business_card_does_not_throw:
  "function_name code = str ''create_business_card'' \<Longrightarrow> \<not> try_block_throws code tcs"
  by (simp add: try_block_throws_def)

lemma execute_code_answers:
  assumes "body_code req = Some code"
    and "body_test_cases req = Some tcs"
    and "\<not> try_block_throws code tcs"
  shows "\<exists>r. execute_code rt req = Inr r \<and> evaluate_execute rt code tcs = Some r"
  using assms evaluate_execute_None [of rt code tcs]
  by (auto simp: execute_code_def)

lemma execute_code_internal_error:
  assumes "body_code req = Some code"
    and "body_test_cases req = Some tcs"
  shows "execute_code rt req = Inl execution_failed \<longleftrightarrow> try_block_throws code tcs"
  using assms evaluate_execute_None [of rt code tcs]
  by (auto simp: execute_code_def split: option.splits)

lemma execute_code_without_field:
  "body_code req = None \<or> body_test_cases req = None \<Longrightarrow>
   execute_code rt req = Inl execution_failed"
  by (auto simp: execute_code_def split: option.split)

text \<open>
  A passing \<^verbatim>\<open>def f(): return 1\<close> with the first expected value \<^verbatim>\<open>{"toString": 1}\<close>
  is answered with status 500.
\<close>

lemma one_request_is_answered_500:
  "has_function one_code \<and> has_return one_code \<and> syntax_errors_execute one_code = []
   \<and> fst (content_check_execute one_code)
   \<and> execute_code rt one_request = Inl execution_failed"
proof -
  have "has_function one_code \<and> has_return one_code \<and> syntax_errors_execute one_code = []
          \<and> fst (content_check_execute one_code)"
    and "try_block_throws one_code one_cases"
    by code_simp+
  then show ?thesis
    using execute_code_internal_error [of one_request one_code one_cases rt]
    by (simp add: one_request_def)
qed

lemma submit_solution_without_code:
  "body_code req = None \<Longrightarrow> submit_solution rt db req = Inl submission_failed"
  by (simp add: submit_solution_def)

lemma submit_solution_not_found:
  assumes "body_code req = Some code"
    and "\<forall>p\<in>set (problems db). row_id p \<noteq> body_problem_id req"
  shows "submit_solution rt db req = Inl problem_not_found"
proof -
  have "filter (\<lambda>p. row_id p = body_problem_id req) (problems db) = []"
    using assms(2) by (simp add: filter_empty_conv)
  then show ?thesis using assms(1) by (simp add: submit_solution_def)
qed

lemma find_filter: "find P xs = Some x \<Longrightarrow> \<exists>rest. filter P xs = x # rest"
  by (induction xs) (auto split: if_splits)

lemma submit_solution_evaluates:
  assumes "body_code req = Some code"
    and "find (\<lambda>p. row_id p = body_problem_id req) (problems db) = Some row"
  shows "submit_solution rt db req = Inr (evaluate_submit rt row code)"
proof -
  obtain rest where "filter (\<lambda>p. row_id p = body_problem_id req) (problems db) = row # rest"
    using find_filter [OF assms(2)] by blast
  then show ?thesis using assms(1) by (simp add: submit_solution_def Let_def)
qed

lemma sample_execute_request [simp]:
  "body_code (execute_request_of code) = Some code"
  "body_test_cases (execute_request_of code) = Some (testCases card_problem)"
  by (simp_all add: execute_request_of_def)

text \<open>
  The expected values of the samples, an array of strings and a number and a number alone,
  are convertible.
\<close>

lemma sample_does_not_throw [simp]:
  "\<not> try_block_throws code (testCases card_problem)"
  "\<not> try_block_throws code add_cases"
  by (simp_all add: try_block_throws_def first_expected_def card_problem_def card_expected_def
      add_cases_def)

lemma sample_title [simp]: "title card_problem = str ''Personal Information Card''"
  by (simp add: card_problem_def)

lemma add_request_fields [simp]:
  "body_code add_request = Some add_code"
  "body_test_cases add_request = Some add_cases"
  by (simp_all add: add_request_def)

lemma add_code_structure:
  "has_function add_code" "has_return add_code"
  "syntax_errors_execute add_code = []" "content_check_execute add_code = (True, [])"
  "function_name add_code = str ''add''"
  by code_simp+

lemma sample_submit_request [simp]:
  "body_code (submit_request_of code) = Some code"
  "find (\<lambda>p. row_id p = body_problem_id (submit_request_of code)) (problems sample_db)
     = Some card_problem"
  by (simp_all add: submit_request_of_def sample_db_def card_problem_def)

text \<open>The whole answer to a submission that misses one of the four checks.\<close>

lemma evaluate_execute_failure:
  assumes "\<not> (has_function code \<and> has_return code \<and> syntax_errors_execute code = []
               \<and> fst (content_check_execute code))"
  shows "evaluate_execute rt code tcs =
     Some \<lparr> success = False,
            execution_time = random_execution_time rt,
            test_results =
              map (\<lambda>(index, testCase).
                     \<lparr> input = input testCase, expected = expected testCase,
                       test_case = index + 1, passed = False, actual = JNull,
                       case_error =
                         (case syntax_errors_execute code of
                            e # _ \<Rightarrow> Some e
                          | [] \<Rightarrow> Some (str ''Function implementation incomplete'')) \<rparr>)
                  (enumerate 0 tcs),
            outputMessage =
              failure_transcript_execute
                (primary_error_execute (syntax_errors_execute code)
                   (snd (content_check_execute code)) (has_function code) (has_return code))
                (has_function code) (has_return code) (syntax_errors_execute code = [])
                (fst (content_check_execute code)),
            error =
              (case syntax_errors_execute code of
                 [] \<Rightarrow> None
               | e # es \<Rightarrow> Some (js_join (str ''. '') (e # es))) \<rparr>"
  using assms
  by (cases "content_check_execute code")
    (auto simp: evaluate_execute_def Let_def hd_conv_nth split: list.split)

text \<open>The whole answer to a passing submission of \<^verbatim>\<open>create_business_card\<close>.\<close>

lemma evaluate_execute_business_card:
  assumes "has_function code" and "has_return code" and "syntax_errors_execute code = []"
    and "fst (content_check_execute code)"
    and "function_name code = str ''create_business_card''"
  shows "evaluate_execute rt code tcs =
     Some \<lparr> success = True,
            execution_time = random_execution_time rt,
            test_results =
              map (\<lambda>(index, testCase).
                     \<lparr> input = input testCase, expected = expected testCase,
                       test_case = index + 1, passed = True, actual = expected testCase,
                       case_error = None \<rparr>)
                  (enumerate 0 tcs),
            outputMessage =
              success_transcript_execute (str ''create_business_card'')
                (business_card_display rt code),
            error = None \<rparr>"
  using assms
  by (cases "content_check_execute code") (auto simp: evaluate_execute_def Let_def)

lemma sample_results:
  "execute_code sample_runtime (execute_request_of code)
     = (case evaluate_execute sample_runtime code (testCases card_problem) of
          None \<Rightarrow> Inl execution_failed
        | Some r \<Rightarrow> Inr r)"
  "submit_solution sample_runtime sample_db (submit_request_of code)
     = Inr (evaluate_submit sample_runtime card_problem code)"
  by (simp_all add: execute_code_def submit_solution_evaluates)

lemma sample_cases: "testCases card_problem = [\<lparr> input = JArray [], expected = card_expected \<rparr>]"
  by (simp add: card_problem_def)

subsection \<open>The verdict\<close>

lemma success_execute:
  "evaluate_execute rt code tcs = Some r \<Longrightarrow>
   success r \<longleftrightarrow>
     has_function code \<and> has_return code \<and> syntax_errors_execute code = []
     \<and> fst (content_check_execute code)"
  by (cases "content_check_execute code") (auto simp: evaluate_execute_def Let_def)

lemma success_submit:
  "success (evaluate_submit rt row code) \<longleftrightarrow>
     has_function code \<and> has_return code \<and> syntax_errors_submit code = []
     \<and> fst (content_check_submit row code)"
  by (simp add: evaluate_submit_def Let_def split: prod.split)

text \<open>
  C1. In both handlers the verdict \<open>success\<close> is true if and only if the code contains
  \<^verbatim>\<open>def \<close>, the code contains \<^verbatim>\<open>return\<close>, the list of syntax violations is empty and
  the content validation passed. Being an equivalence with the conjunction, no predicate
  makes up for another. This is the verdict of a submission that the handler evaluates:
  in \<^verbatim>\<open>/api/execute-code\<close> the \<^verbatim>\<open>try\<close> block must not throw.
\<close>

theorem verdict_iff_four_predicates:
  assumes "body_code ereq = Some code"
    and "body_test_cases ereq = Some tcs"
    and "\<not> try_block_throws code tcs"
    and "body_code sreq = Some code'"
    and "find (\<lambda>p. row_id p = body_problem_id sreq) (problems db) = Some row"
  shows "(\<exists>r. execute_code rt ereq = Inr r \<and>
            (success r \<longleftrightarrow>
               (\<exists>a b. code = a @ str ''def '' @ b) \<and> (\<exists>a b. code = a @ str ''return'' @ b)
               \<and> syntax_errors_execute code = [] \<and> fst (content_check_execute code)))
       \<and> (\<exists>r. submit_solution rt db sreq = Inr r \<and>
            (success r \<longleftrightarrow>
               (\<exists>a b. code' = a @ str ''def '' @ b) \<and> (\<exists>a b. code' = a @ str ''return'' @ b)
               \<and> syntax_errors_submit code' = [] \<and> fst (content_check_submit row code')))"
proof -
  obtain e where "execute_code rt ereq = Inr e" and "evaluate_execute rt code tcs = Some e"
    using execute_code_answers [OF assms(1,2,3)] by blast
  moreover have "submit_solution rt db sreq = Inr (evaluate_submit rt row code')"
    using assms(4,5) by (rule submit_solution_evaluates)
  ultimately show ?thesis
    by (simp add: success_execute success_submit has_function_def has_return_def js_includes_iff)
qed

theorem verdict_iff_four_predicates_witness:
  "\<not> try_block_throws add_code add_cases
   \<and> (\<exists>r. execute_code sample_runtime add_request = Inr r \<and> success r \<and>
            (success r \<longleftrightarrow>
               (\<exists>a b. add_code = a @ str ''def '' @ b) \<and> (\<exists>a b. add_code = a @ str ''return'' @ b)
               \<and> syntax_errors_execute add_code = [] \<and> fst (content_check_execute add_code)))
   \<and> (\<exists>r. submit_solution sample_runtime sample_db (submit_request_of ann_code) = Inr r
          \<and> success r \<and>
            (success r \<longleftrightarrow>
               (\<exists>a b. ann_code = a @ str ''def '' @ b) \<and> (\<exists>a b. ann_code = a @ str ''return'' @ b)
               \<and> syntax_errors_submit ann_code = []
               \<and> fst (content_check_submit card_problem ann_code)))"
proof -
  have ann: "has_function ann_code" "has_return ann_code" "syntax_errors_submit ann_code = []"
    "business_card_check
       (str ''Name variable must be assigned a non-empty string value'')
       (str ''Age variable must be assigned a positive number'')
       (str ''City variable must be assigned a non-empty string value'')
       (str ''Profession variable must be assigned a non-empty string value'')
       ann_code (True, []) = (True, [])"
    by code_simp+
  have "body_code add_request = Some add_code"
    and "body_test_cases add_request = Some add_cases"
    and "\<not> try_block_throws add_code add_cases"
    and "body_code (submit_request_of ann_code) = Some ann_code"
    and "find (\<lambda>p. row_id p = body_problem_id (submit_request_of ann_code)) (problems sample_db)
           = Some card_problem"
    by simp_all
  from verdict_iff_four_predicates [OF this, of sample_runtime] show ?thesis
    using add_code_structure ann
    by (auto simp: has_function_def has_return_def js_includes_iff content_check_submit_def)
qed

subsection \<open>The per-case results\<close>

lemma test_results_execute:
  "evaluate_execute rt code tcs = Some r \<Longrightarrow>
   test_results r =
     map (\<lambda>(index, testCase).
            \<lparr> input = input testCase, expected = expected testCase, test_case = index + 1,
              passed = success r,
              actual = (if success r then expected testCase else JNull),
              case_error =
                (if success r then None
                 else if syntax_errors_execute code \<noteq> [] then Some (hd (syntax_errors_execute code))
                 else Some (str ''Function implementation incomplete'')) \<rparr>)
         (enumerate 0 tcs)"
  by (cases "content_check_execute code") (auto simp: evaluate_execute_def Let_def hd_conv_nth)

lemma test_results_submit:
  "test_results (evaluate_submit rt row code) =
     map (\<lambda>(index, testCase).
            \<lparr> input = input testCase, expected = expected testCase, test_case = index + 1,
              passed = success (evaluate_submit rt row code),
              actual = (if success (evaluate_submit rt row code) then expected testCase else JNull),
              case_error = error (evaluate_submit rt row code) \<rparr>)
         (enumerate 0 (testCases row))"
  by (cases "content_check_submit row code") (auto simp: evaluate_submit_def Let_def)

text \<open>
  C4. In both handlers every supplied test case is echoed, in order, with \<open>passed\<close> equal
  to the verdict of the whole submission and \<open>actual\<close> equal to the case's expected value
  when the verdict is success and \<^verbatim>\<open>null\<close> otherwise. So a failed submission has
  \<open>passed\<close> false and \<open>actual\<close> \<^verbatim>\<open>null\<close> in every case. These are the per-case results
  of a submission that the handler evaluates: in \<^verbatim>\<open>/api/execute-code\<close> the \<^verbatim>\<open>try\<close>
  block must not throw.
\<close>

theorem per_case_results_follow_verdict:
  assumes "body_code ereq = Some code"
    and "body_test_cases ereq = Some tcs"
    and "\<not> try_block_throws code tcs"
    and "body_code sreq = Some code'"
    and "find (\<lambda>p. row_id p = body_problem_id sreq) (problems db) = Some row"
  shows "(\<exists>r. execute_code rt ereq = Inr r \<and> length (test_results r) = length tcs \<and>
            (\<forall>i<length tcs.
               passed (test_results r ! i) = success r
               \<and> actual (test_results r ! i) = (if success r then expected (tcs ! i) else JNull)
               \<and> input (test_results r ! i) = input (tcs ! i)
               \<and> expected (test_results r ! i) = expected (tcs ! i)
               \<and> test_case (test_results r ! i) = i + 1))
       \<and> (\<exists>r. submit_solution rt db sreq = Inr r \<and>
            length (test_results r) = length (testCases row) \<and>
            (\<forall>i<length (testCases row).
               passed (test_results r ! i) = success r
               \<and> actual (test_results r ! i) = (if success r then expected (testCases row ! i) else JNull)
               \<and> input (test_results r ! i) = input (testCases row ! i)
               \<and> expected (test_results r ! i) = expected (testCases row ! i)
               \<and> test_case (test_results r ! i) = i + 1))"
proof -
  obtain e where "execute_code rt ereq = Inr e" and "evaluate_execute rt code tcs = Some e"
    using execute_code_answers [OF assms(1,2,3)] by blast
  moreover have "submit_solution rt db sreq = Inr (evaluate_submit rt row code')"
    using assms(4,5) by (rule submit_solution_evaluates)
  ultimately show ?thesis
    by (simp add: test_results_execute test_results_submit nth_enumerate_eq)
qed

theorem per_case_results_follow_verdict_witness:
  "\<not> try_block_throws add_code add_cases
   \<and> (\<exists>r. execute_code sample_runtime add_request = Inr r
          \<and> length (test_results r) = length add_cases \<and>
            (\<forall>i<length add_cases.
               passed (test_results r ! i) = success r
               \<and> actual (test_results r ! i)
                   = (if success r then expected (add_cases ! i) else JNull)
               \<and> input (test_results r ! i) = input (add_cases ! i)
               \<and> expected (test_results r ! i) = expected (add_cases ! i)
               \<and> test_case (test_results r ! i) = i + 1))
       \<and> (\<exists>r. submit_solution sample_runtime sample_db (submit_request_of ann_code) = Inr r \<and>
            length (test_results r) = length (testCases card_problem) \<and>
            (\<forall>i<length (testCases card_problem).
               passed (test_results r ! i) = success r
               \<and> actual (test_results r ! i)
                   = (if success r then expected (testCases card_problem ! i) else JNull)
               \<and> input (test_results r ! i) = input (testCases card_problem ! i)
               \<and> expected (test_results r ! i) = expected (testCases card_problem ! i)
               \<and> test_case (test_results r ! i) = i + 1))"
proof -
  have "body_code add_request = Some add_code"
    and "body_test_cases add_request = Some add_cases"
    and "\<not> try_block_throws add_code add_cases"
    and "body_code (submit_request_of ann_code) = Some ann_code"
    and "find (\<lambda>p. row_id p = body_problem_id (submit_request_of ann_code)) (problems sample_db)
           = Some card_problem"
    by simp_all
  from per_case_results_follow_verdict [OF this, of sample_runtime] show ?thesis
    by simp
qed

subsection \<open>Syntax violations\<close>

text \<open>
  C8. A code text in which \<^verbatim>\<open>let \<close> occurs has, in both handlers, a list of syntax
  violations that is not empty and starts with the message for that keyword, and the
  verdict is failure, whatever else the text holds (a function definition and a return
  included).
\<close>

theorem let_keyword_is_rejected:
  assumes "code = a @ str ''let '' @ b"
    and "body_code ereq = Some code"
    and "body_test_cases ereq = Some tcs"
    and "body_code sreq = Some code"
    and "find (\<lambda>p. row_id p = body_problem_id sreq) (problems db) = Some row"
  shows "syntax_errors_execute code \<noteq> [] \<and> hd (syntax_errors_execute code) = let_message
       \<and> (\<exists>r. execute_code rt ereq = Inr r \<and> \<not> success r)
       \<and> syntax_errors_submit code \<noteq> [] \<and> hd (syntax_errors_submit code) = let_message
       \<and> (\<exists>r. submit_solution rt db sreq = Inr r \<and> \<not> success r)"
proof -
  have "js_includes code (str ''let '')"
    using assms(1) js_includes_iff by blast
  then have se: "syntax_errors_execute code \<noteq> [] \<and> hd (syntax_errors_execute code) = let_message"
    and ss: "syntax_errors_submit code \<noteq> [] \<and> hd (syntax_errors_submit code) = let_message"
    by (simp_all add: syntax_errors_execute_def syntax_errors_submit_def)
  have "\<not> try_block_throws code tcs"
    using se by (intro failure_does_not_throw) simp
  then obtain e where "execute_code rt ereq = Inr e" and "evaluate_execute rt code tcs = Some e"
    using execute_code_answers [OF assms(2,3)] by blast
  moreover have "submit_solution rt db sreq = Inr (evaluate_submit rt row code)"
    using assms(4,5) by (rule submit_solution_evaluates)
  ultimately show ?thesis
    using se ss by (simp add: success_execute success_submit)
qed

theorem let_keyword_is_rejected_witness:
  "syntax_errors_execute let_code \<noteq> [] \<and> hd (syntax_errors_execute let_code) = let_message
   \<and> (\<exists>r. execute_code sample_runtime (execute_request_of let_code) = Inr r \<and> \<not> success r)
   \<and> syntax_errors_submit let_code \<noteq> [] \<and> hd (syntax_errors_submit let_code) = let_message
   \<and> (\<exists>r. submit_solution sample_runtime sample_db (submit_request_of let_code) = Inr r
          \<and> \<not> success r)"
  by (rule let_keyword_is_rejected [where a = "ann_code @ [0x0A]" and b = "str ''x = 5''"])
    (simp_all add: let_code_def str_def)

subsection \<open>Error messages\<close>

lemma reject_flag:
  "fst st = (snd st = []) \<Longrightarrow> fst (reject failed msg st) = (snd (reject failed msg st) = [])"
  by (simp add: reject_def)


lemma business_card_check_flag:
  "fst (business_card_check m1 m2 m3 m4 code (True, []))
     = (snd (business_card_check m1 m2 m3 m4 code (True, [])) = [])"
  unfolding business_card_check_def Let_def
  by (intro reject_flag) simp

lemma content_check_execute_flag:
  "fst (content_check_execute code) = (snd (content_check_execute code) = [])"
  by (simp add: content_check_execute_def business_card_check_flag)

lemma content_check_submit_flag:
  "fst (content_check_submit row code) = (snd (content_check_submit row code) = [])"
  by (simp add: content_check_submit_def business_card_check_flag)



lemma syntax_errors_submit_messages:
  "set (syntax_errors_submit code) \<subseteq> {let_message, const_or_var_message}"
  by (auto simp: syntax_errors_submit_def)

lemma error_submit:
  "error (evaluate_submit rt row code) =
     (if success (evaluate_submit rt row code) then None
      else error_message_submit (syntax_errors_submit code) (has_function code) (has_return code)
             (snd (content_check_submit row code)))"
  by (cases "content_check_submit row code") (auto simp: evaluate_submit_def Let_def)

lemma error_execute:
  "evaluate_execute rt code tcs = Some r \<Longrightarrow>
   error r =
     (if syntax_errors_execute code = [] then None
      else Some (js_join (str ''. '') (syntax_errors_execute code)))"
  by (cases "content_check_execute code") (auto simp: evaluate_execute_def Let_def)

lemma output_failure_execute:
  "evaluate_execute rt code tcs = Some r \<Longrightarrow> \<not> success r \<Longrightarrow>
   outputMessage r =
     failure_transcript_execute
       (primary_error_execute (syntax_errors_execute code) (snd (content_check_execute code))
          (has_function code) (has_return code))
       (has_function code) (has_return code) (syntax_errors_execute code = [])
       (fst (content_check_execute code))"
  by (cases "content_check_execute code")
    (auto simp: evaluate_execute_def Let_def split: if_splits)

lemma output_failure_submit:
  "\<not> success (evaluate_submit rt row code) \<Longrightarrow>
   outputMessage (evaluate_submit rt row code) =
     failure_transcript_submit
       (message_text (error_message_submit (syntax_errors_submit code) (has_function code)
          (has_return code) (snd (content_check_submit row code))))
       (has_function code) (has_return code) (syntax_errors_submit code = [])
       (fst (content_check_submit row code))"
  by (cases "content_check_submit row code") (auto simp: evaluate_submit_def Let_def)

lemma error_message_submit_failure:
  assumes "\<not> success (evaluate_submit rt row code)"
  shows "error_message_submit (syntax_errors_submit code) (has_function code) (has_return code)
           (snd (content_check_submit row code)) \<noteq> None"
  using assms content_check_submit_flag [of row code]
  by (auto simp: success_submit error_message_submit_def)

lemma hd_in_messages: "xs \<noteq> [] \<Longrightarrow> set xs \<subseteq> M \<Longrightarrow> hd xs \<in> M"
  by (cases xs) auto






subsection \<open>The primary error\<close>

text \<open>
  C2, as the claim states it, fails in \<^verbatim>\<open>/api/execute-code\<close>: a call of
  \<^verbatim>\<open>create_business_card\<close> without any definition has no syntax violation and no
  function definition, and the transcript reports the first content error, not the missing
  definition.
\<close>

theorem primary_error_order_counterexample:
  "execute_code sample_runtime (execute_request_of call_code)
     = Inr \<lparr> success = False,
             execution_time = 100,
             test_results =
               [\<lparr> input = JArray [], expected = card_expected, test_case = 1, passed = False,
                  actual = JNull,
                  case_error = Some (str ''Function implementation incomplete'') \<rparr>],
             outputMessage =
               failure_transcript_execute (str ''Name must be a non-empty string'')
                 False False True False,
             error = None \<rparr>
   \<and> syntax_errors_execute call_code = []
   \<and> \<not> has_function call_code
   \<and> str ''Name must be a non-empty string'' \<noteq> str ''Missing function definition''"
proof -
  have nf: "\<not> has_function call_code" and nr: "\<not> has_return call_code"
    and sy: "syntax_errors_execute call_code = []"
    by code_simp+
  have co: "content_check_execute call_code \<noteq> (True, [])"
    by code_simp
  have pe: "primary_error_execute (syntax_errors_execute call_code)
              (snd (content_check_execute call_code)) (has_function call_code)
              (has_return call_code) = str ''Name must be a non-empty string''"
    by code_simp
  have fc: "fst (content_check_execute call_code) = False"
    using co content_check_execute_flag [of call_code]
    by (cases "content_check_execute call_code") auto
  have "\<not> (has_function call_code \<and> has_return call_code \<and> syntax_errors_execute call_code = []
               \<and> fst (content_check_execute call_code))"
    using nf by simp
  from evaluate_execute_failure [OF this, of sample_runtime "testCases card_problem"]
  have "execute_code sample_runtime (execute_request_of call_code)
     = Inr \<lparr> success = False,
             execution_time = 100,
             test_results =
               [\<lparr> input = JArray [], expected = card_expected, test_case = 1, passed = False,
                  actual = JNull,
                  case_error = Some (str ''Function implementation incomplete'') \<rparr>],
             outputMessage =
               failure_transcript_execute (str ''Name must be a non-empty string'')
                 False False True False,
             error = None \<rparr>"
    using pe by (simp add: sample_results sample_cases sample_execution_time nf nr sy fc)
  moreover have "str ''Name must be a non-empty string'' \<noteq> str ''Missing function definition''"
    by (simp add: str_def)
  ultimately show ?thesis using nf sy by simp
qed

text \<open>
  C2, amended. The primary error of a failing submission follows a fixed order in each
  handler, and the two orders differ. In \<^verbatim>\<open>/api/submit-solution\<close> it is the first
  syntax violation, else the missing-definition message, else the missing-return message,
  else the first content-validation error (there is one then); it is the top-level
  \<open>error\<close> and the error of the transcript. In \<^verbatim>\<open>/api/execute-code\<close> it is the first
  syntax violation, else the first content-validation error, else the missing-definition
  message, else the missing-return message (the return is missing then); it is the error
  of the transcript. Neither handler reaches a fallback for a failing submission. A
  submission that misses one of the four checks is answered with the verdict failure by
  \<^verbatim>\<open>/api/execute-code\<close>, whatever its test cases.
\<close>

theorem primary_error_precedence:
  assumes "body_code ereq = Some code"
    and "body_test_cases ereq = Some tcs"
    and "body_code sreq = Some code'"
    and "find (\<lambda>p. row_id p = body_problem_id sreq) (problems db) = Some row"
  shows "(\<not> (has_function code \<and> has_return code \<and> syntax_errors_execute code = []
              \<and> fst (content_check_execute code)) \<longrightarrow>
            (\<exists>r. execute_code rt ereq = Inr r \<and> \<not> success r \<and>
               (\<exists>e. outputMessage r =
                      failure_transcript_execute e (has_function code) (has_return code)
                        (syntax_errors_execute code = []) (fst (content_check_execute code))
                  \<and> e = (case syntax_errors_execute code of
                           s # _ \<Rightarrow> s
                         | [] \<Rightarrow>
                            (case snd (content_check_execute code) of
                               c # _ \<Rightarrow> c
                             | [] \<Rightarrow>
                                if \<not> has_function code then str ''Missing function definition''
                                else str ''Missing return statement''))
                  \<and> (syntax_errors_execute code = [] \<and> snd (content_check_execute code) = []
                       \<and> has_function code \<longrightarrow> \<not> has_return code))))
       \<and> (\<exists>r. submit_solution rt db sreq = Inr r \<and>
            (\<not> success r \<longrightarrow>
               (\<exists>e. error r = Some e
                  \<and> outputMessage r =
                      failure_transcript_submit e (has_function code') (has_return code')
                        (syntax_errors_submit code' = []) (fst (content_check_submit row code'))
                  \<and> e = (case syntax_errors_submit code' of
                           s # _ \<Rightarrow> s
                         | [] \<Rightarrow>
                            if \<not> has_function code' then missing_function_message
                            else if \<not> has_return code' then str ''Missing return statement''
                            else hd (snd (content_check_submit row code')))
                  \<and> (syntax_errors_submit code' = [] \<and> has_function code' \<and> has_return code'
                       \<longrightarrow> snd (content_check_submit row code') \<noteq> []))))"
proof -
  let ?s = "evaluate_submit rt row code'"
  have su: "submit_solution rt db sreq = Inr ?s"
    using assms(3,4) by (rule submit_solution_evaluates)
  have pe: "primary_error_execute (syntax_errors_execute code) (snd (content_check_execute code))
            (has_function code) (has_return code)
          = (case syntax_errors_execute code of
               s # _ \<Rightarrow> s
             | [] \<Rightarrow>
                (case snd (content_check_execute code) of
                   c # _ \<Rightarrow> c
                 | [] \<Rightarrow>
                    if \<not> has_function code then str ''Missing function definition''
                    else str ''Missing return statement''))
        \<and> (syntax_errors_execute code = [] \<and> snd (content_check_execute code) = []
             \<and> has_function code \<longrightarrow> \<not> has_return code)"
    if "\<not> (has_function code \<and> has_return code \<and> syntax_errors_execute code = []
            \<and> fst (content_check_execute code))"
    using that content_check_execute_flag [of code]
    by (auto simp: primary_error_execute_def split: list.split)
  have first: "\<exists>r. execute_code rt ereq = Inr r \<and> \<not> success r \<and>
      (\<exists>e. outputMessage r =
             failure_transcript_execute e (has_function code) (has_return code)
               (syntax_errors_execute code = []) (fst (content_check_execute code))
         \<and> e = (case syntax_errors_execute code of
                  s # _ \<Rightarrow> s
                | [] \<Rightarrow>
                   (case snd (content_check_execute code) of
                      c # _ \<Rightarrow> c
                    | [] \<Rightarrow>
                       if \<not> has_function code then str ''Missing function definition''
                       else str ''Missing return statement''))
         \<and> (syntax_errors_execute code = [] \<and> snd (content_check_execute code) = []
              \<and> has_function code \<longrightarrow> \<not> has_return code))"
    if miss: "\<not> (has_function code \<and> has_return code \<and> syntax_errors_execute code = []
                  \<and> fst (content_check_execute code))"
  proof -
    obtain r where ex: "execute_code rt ereq = Inr r" and ev: "evaluate_execute rt code tcs = Some r"
      using execute_code_answers [OF assms(1,2) failure_does_not_throw [OF miss]] by blast
    have fail: "\<not> success r"
      using miss by (simp add: success_execute [OF ev])
    show ?thesis
      using ex fail output_failure_execute [OF ev fail] pe [OF miss] by metis
  qed
  have "\<exists>e. error ?s = Some e
        \<and> outputMessage ?s =
            failure_transcript_submit e (has_function code') (has_return code')
              (syntax_errors_submit code' = []) (fst (content_check_submit row code'))
        \<and> e = (case syntax_errors_submit code' of
                 s # _ \<Rightarrow> s
               | [] \<Rightarrow>
                  if \<not> has_function code' then missing_function_message
                  else if \<not> has_return code' then str ''Missing return statement''
                  else hd (snd (content_check_submit row code')))
        \<and> (syntax_errors_submit code' = [] \<and> has_function code' \<and> has_return code'
             \<longrightarrow> snd (content_check_submit row code') \<noteq> [])"
    if fail: "\<not> success ?s"
  proof -
    let ?m = "error_message_submit (syntax_errors_submit code') (has_function code')
                (has_return code') (snd (content_check_submit row code'))"
    obtain e where e: "?m = Some e"
      using error_message_submit_failure [OF fail] by blast
    have "error ?s = Some e"
      using fail e by (simp add: error_submit)
    moreover have "outputMessage ?s =
            failure_transcript_submit e (has_function code') (has_return code')
              (syntax_errors_submit code' = []) (fst (content_check_submit row code'))"
      using output_failure_submit [OF fail] e by (simp add: message_text_def)
    moreover have "e = (case syntax_errors_submit code' of
                 s # _ \<Rightarrow> s
               | [] \<Rightarrow>
                  if \<not> has_function code' then missing_function_message
                  else if \<not> has_return code' then str ''Missing return statement''
                  else hd (snd (content_check_submit row code')))"
      using e by (auto simp: error_message_submit_def hd_conv_nth split: list.split if_splits)
    moreover have "syntax_errors_submit code' = [] \<and> has_function code' \<and> has_return code'
             \<longrightarrow> snd (content_check_submit row code') \<noteq> []"
      using fail content_check_submit_flag [of row code'] by (auto simp: success_submit)
    ultimately show ?thesis by blast
  qed
  then show ?thesis using first su by blast
qed

theorem primary_error_precedence_witness:
  "(\<exists>r. execute_code sample_runtime (execute_request_of call_code) = Inr r \<and>
            (\<not> success r \<and>
               (\<exists>e. outputMessage r =
                      failure_transcript_execute e (has_function call_code) (has_return call_code)
                        (syntax_errors_execute call_code = []) (fst (content_check_execute call_code))
                  \<and> e = (case syntax_errors_execute call_code of
                           s # _ \<Rightarrow> s
                         | [] \<Rightarrow>
                            (case snd (content_check_execute call_code) of
                               c # _ \<Rightarrow> c
                             | [] \<Rightarrow>
                                if \<not> has_function call_code then str ''Missing function definition''
                                else str ''Missing return statement'')))))
       \<and> (\<exists>r. submit_solution sample_runtime sample_db (submit_request_of call_code) = Inr r \<and>
            (\<not> success r \<and>
               (\<exists>e. error r = Some e
                  \<and> outputMessage r =
                      failure_transcript_submit e (has_function call_code) (has_return call_code)
                        (syntax_errors_submit call_code = [])
                        (fst (content_check_submit card_problem call_code))
                  \<and> e = (case syntax_errors_submit call_code of
                           s # _ \<Rightarrow> s
                         | [] \<Rightarrow>
                            if \<not> has_function call_code then missing_function_message
                            else if \<not> has_return call_code then str ''Missing return statement''
                            else hd (snd (content_check_submit card_problem call_code))))))"
proof -
  have nf: "\<not> has_function call_code"
    by code_simp
  have "body_code (execute_request_of call_code) = Some call_code"
    and "body_test_cases (execute_request_of call_code) = Some (testCases card_problem)"
    and "body_code (submit_request_of call_code) = Some call_code"
    and "find (\<lambda>p. row_id p = body_problem_id (submit_request_of call_code)) (problems sample_db)
           = Some card_problem"
    by simp_all
  from primary_error_precedence [OF this, of sample_runtime] nf show ?thesis
    by (simp add: sample_results(2) success_submit)
qed

subsection \<open>The top-level error\<close>

text \<open>
  C5, as the claim states it, fails in \<^verbatim>\<open>/api/execute-code\<close>: a failing submission
  without a syntax violation has the top-level \<open>error\<close> \<^verbatim>\<open>null\<close>, and one with two
  syntax violations has both messages in it, joined.
\<close>

theorem top_level_error_counterexample:
  "execute_code sample_runtime (execute_request_of assignment_code)
     = Inr \<lparr> success = False,
             execution_time = 100,
             test_results =
               [\<lparr> input = JArray [], expected = card_expected, test_case = 1, passed = False,
                  actual = JNull,
                  case_error = Some (str ''Function implementation incomplete'') \<rparr>],
             outputMessage =
               failure_transcript_execute (str ''Missing function definition'')
                 False False True True,
             error = None \<rparr>
   \<and> execute_code sample_runtime (execute_request_of let_const_code)
       = Inr \<lparr> success = False,
               execution_time = 100,
               test_results =
                 [\<lparr> input = JArray [], expected = card_expected, test_case = 1, passed = False,
                    actual = JNull, case_error = Some let_message \<rparr>],
               outputMessage = failure_transcript_execute let_message False False False True,
               error = Some (let_message @ str ''. '' @ const_message) \<rparr>"
proof -
  have a: "\<not> has_function assignment_code" "\<not> has_return assignment_code"
    "syntax_errors_execute assignment_code = []"
    "content_check_execute assignment_code = (True, [])"
    and l: "\<not> has_function let_const_code" "\<not> has_return let_const_code"
    "syntax_errors_execute let_const_code = [let_message, const_message]"
    "content_check_execute let_const_code = (True, [])"
    by code_simp+
  have "\<not> (has_function assignment_code \<and> has_return assignment_code
           \<and> syntax_errors_execute assignment_code = []
           \<and> fst (content_check_execute assignment_code))"
    using a by simp
  from evaluate_execute_failure [OF this, of sample_runtime "testCases card_problem"]
  have first: "execute_code sample_runtime (execute_request_of assignment_code)
     = Inr \<lparr> success = False,
             execution_time = 100,
             test_results =
               [\<lparr> input = JArray [], expected = card_expected, test_case = 1, passed = False,
                  actual = JNull,
                  case_error = Some (str ''Function implementation incomplete'') \<rparr>],
             outputMessage =
               failure_transcript_execute (str ''Missing function definition'')
                 False False True True,
             error = None \<rparr>"
    by (simp add: sample_results sample_cases sample_execution_time a primary_error_execute_def)
  have "\<not> (has_function let_const_code \<and> has_return let_const_code
           \<and> syntax_errors_execute let_const_code = []
           \<and> fst (content_check_execute let_const_code))"
    using l by simp
  from evaluate_execute_failure [OF this, of sample_runtime "testCases card_problem"]
  have "execute_code sample_runtime (execute_request_of let_const_code)
       = Inr \<lparr> success = False,
               execution_time = 100,
               test_results =
                 [\<lparr> input = JArray [], expected = card_expected, test_case = 1, passed = False,
                    actual = JNull, case_error = Some let_message \<rparr>],
               outputMessage = failure_transcript_execute let_message False False False True,
               error = Some (let_message @ str ''. '' @ const_message) \<rparr>"
    by (simp add: sample_results sample_cases sample_execution_time l primary_error_execute_def)
  then show ?thesis using first by simp
qed

text \<open>
  C5, amended. In \<^verbatim>\<open>/api/submit-solution\<close> the top-level \<open>error\<close> of a failing
  submission is not \<^verbatim>\<open>null\<close>: it is the selected primary error, one message of the
  syntax, structure or content checks. In \<^verbatim>\<open>/api/execute-code\<close> the top-level
  \<open>error\<close> of a failing submission is \<^verbatim>\<open>null\<close> when there is no syntax violation and
  otherwise all syntax violations joined with a full stop and a space; the same holds for
  a passing submission that the handler evaluates.
\<close>

theorem top_level_error_field:
  assumes "body_code ereq = Some code"
    and "body_test_cases ereq = Some tcs"
    and "body_code sreq = Some code'"
    and "find (\<lambda>p. row_id p = body_problem_id sreq) (problems db) = Some row"
  shows "(\<not> (has_function code \<and> has_return code \<and> syntax_errors_execute code = []
              \<and> fst (content_check_execute code)) \<longrightarrow>
            (\<exists>r. execute_code rt ereq = Inr r \<and> \<not> success r \<and>
               error r = (if syntax_errors_execute code = [] then None
                          else Some (js_join (str ''. '') (syntax_errors_execute code)))))
       \<and> (\<not> try_block_throws code tcs \<longrightarrow>
            (\<exists>r. execute_code rt ereq = Inr r \<and>
               error r = (if syntax_errors_execute code = [] then None
                          else Some (js_join (str ''. '') (syntax_errors_execute code)))))
       \<and> (\<exists>r. submit_solution rt db sreq = Inr r \<and>
            (\<not> success r \<longrightarrow>
               (\<exists>e. error r = Some e
                  \<and> error_message_submit (syntax_errors_submit code') (has_function code')
                       (has_return code') (snd (content_check_submit row code')) = Some e
                  \<and> e \<in> {let_message, const_or_var_message, missing_function_message,
                           str ''Missing return statement''}
                          \<union> set (snd (content_check_submit row code')))))"
proof -
  let ?s = "evaluate_submit rt row code'"
  let ?m = "error_message_submit (syntax_errors_submit code') (has_function code')
              (has_return code') (snd (content_check_submit row code'))"
  have su: "submit_solution rt db sreq = Inr ?s"
    using assms(3,4) by (rule submit_solution_evaluates)
  have evaluated: "\<exists>r. execute_code rt ereq = Inr r
      \<and> (success r \<longleftrightarrow> has_function code \<and> has_return code \<and> syntax_errors_execute code = []
            \<and> fst (content_check_execute code))
      \<and> error r = (if syntax_errors_execute code = [] then None
                   else Some (js_join (str ''. '') (syntax_errors_execute code)))"
    if nt: "\<not> try_block_throws code tcs"
  proof -
    obtain r where "execute_code rt ereq = Inr r" and ev: "evaluate_execute rt code tcs = Some r"
      using execute_code_answers [OF assms(1,2) nt] by blast
    then show ?thesis
      using success_execute [OF ev] error_execute [OF ev] by blast
  qed
  have failing: "\<exists>r. execute_code rt ereq = Inr r \<and> \<not> success r
      \<and> error r = (if syntax_errors_execute code = [] then None
                   else Some (js_join (str ''. '') (syntax_errors_execute code)))"
    if miss: "\<not> (has_function code \<and> has_return code \<and> syntax_errors_execute code = []
                  \<and> fst (content_check_execute code))"
    using evaluated [OF failure_does_not_throw [OF miss]] miss by blast
  have "\<exists>e. error ?s = Some e \<and> ?m = Some e
          \<and> e \<in> {let_message, const_or_var_message, missing_function_message,
                   str ''Missing return statement''}
                  \<union> set (snd (content_check_submit row code'))"
    if fail: "\<not> success ?s"
  proof -
    obtain e where e: "?m = Some e"
      using error_message_submit_failure [OF fail] by blast
    have "syntax_errors_submit code' \<noteq> [] \<Longrightarrow>
            hd (syntax_errors_submit code') \<in> {let_message, const_or_var_message}"
      using hd_in_messages [OF _ syntax_errors_submit_messages] .
    then have "e \<in> {let_message, const_or_var_message, missing_function_message,
                   str ''Missing return statement''}
                  \<union> set (snd (content_check_submit row code'))"
      using e by (auto simp: error_message_submit_def hd_conv_nth split: if_splits)
    then show ?thesis using e fail by (simp add: error_submit)
  qed
  then show ?thesis using evaluated failing su by blast
qed

theorem top_level_error_field_witness:
  "(\<exists>r. execute_code sample_runtime (execute_request_of let_const_code) = Inr r \<and> \<not> success r \<and>
            error r = (if syntax_errors_execute let_const_code = [] then None
                       else Some (js_join (str ''. '') (syntax_errors_execute let_const_code))))
       \<and> \<not> try_block_throws add_code add_cases
       \<and> (\<exists>r. execute_code sample_runtime add_request = Inr r \<and>
            error r = (if syntax_errors_execute add_code = [] then None
                       else Some (js_join (str ''. '') (syntax_errors_execute add_code))))
       \<and> (\<exists>r. submit_solution sample_runtime sample_db (submit_request_of assignment_code) = Inr r \<and>
            (\<not> success r \<and>
               (\<exists>e. error r = Some e
                  \<and> error_message_submit (syntax_errors_submit assignment_code)
                       (has_function assignment_code) (has_return assignment_code)
                       (snd (content_check_submit card_problem assignment_code)) = Some e
                  \<and> e \<in> {let_message, const_or_var_message, missing_function_message,
                           str ''Missing return statement''}
                          \<union> set (snd (content_check_submit card_problem assignment_code)))))"
proof -
  have nf: "\<not> has_function assignment_code" "\<not> has_function let_const_code"
    by code_simp+
  have r1: "body_code (execute_request_of let_const_code) = Some let_const_code"
    and r2: "body_test_cases (execute_request_of let_const_code) = Some (testCases card_problem)"
    and r3: "body_code (submit_request_of assignment_code) = Some assignment_code"
    and r4: "find (\<lambda>p. row_id p = body_problem_id (submit_request_of assignment_code))
           (problems sample_db) = Some card_problem"
    by simp_all
  have "\<exists>r. execute_code sample_runtime add_request = Inr r \<and>
            error r = (if syntax_errors_execute add_code = [] then None
                       else Some (js_join (str ''. '') (syntax_errors_execute add_code)))"
    using top_level_error_field [of add_request add_code add_cases
        "submit_request_of assignment_code" assignment_code sample_db card_problem sample_runtime]
    by simp
  moreover from top_level_error_field [OF r1 r2 r3 r4, of sample_runtime] nf
  have "(\<exists>r. execute_code sample_runtime (execute_request_of let_const_code) = Inr r
            \<and> \<not> success r \<and>
            error r = (if syntax_errors_execute let_const_code = [] then None
                       else Some (js_join (str ''. '') (syntax_errors_execute let_const_code))))
       \<and> (\<exists>r. submit_solution sample_runtime sample_db (submit_request_of assignment_code) = Inr r \<and>
            (\<not> success r \<and>
               (\<exists>e. error r = Some e
                  \<and> error_message_submit (syntax_errors_submit assignment_code)
                       (has_function assignment_code) (has_return assignment_code)
                       (snd (content_check_submit card_problem assignment_code)) = Some e
                  \<and> e \<in> {let_message, const_or_var_message, missing_function_message,
                           str ''Missing return statement''}
                          \<union> set (snd (content_check_submit card_problem assignment_code)))))"
    by (simp add: sample_results(2) success_submit)
  ultimately show ?thesis by simp
qed

subsection \<open>Progress\<close>

lemma progress_submit:
  "progress (evaluate_submit rt row code) =
     \<lparr> is_completed = success (evaluate_submit rt row code),
       attempts = 1,
       best_time = (if success (evaluate_submit rt row code)
                    then Some (execution_time (evaluate_submit rt row code)) else None) \<rparr>"
  by (cases "content_check_submit row code") (auto simp: evaluate_submit_def Let_def)

text \<open>
  C3, as the claim states it, fails: the database holds a progress row of the user for the
  problem, completed, with three attempts; a failing submission of that user for that
  problem returns a progress that is not completed and has one attempt.
\<close>

theorem progress_counterexample:
  "userProgress sample_db =
     [\<lparr> userId = str ''demo_user'', problemId = 1, isCompleted = True, attempts = 3,
        bestTime = Some 120, hintsUsed = 0 \<rparr>]
   \<and> body_user_id (submit_request_of assignment_code) = str ''demo_user''
   \<and> body_problem_id (submit_request_of assignment_code) = 1
   \<and> submit_solution sample_runtime sample_db (submit_request_of assignment_code)
       = Inr (evaluate_submit sample_runtime card_problem assignment_code)
   \<and> \<not> success (evaluate_submit sample_runtime card_problem assignment_code)
   \<and> progress (evaluate_submit sample_runtime card_problem assignment_code)
       = \<lparr> is_completed = False, attempts = 1, best_time = None \<rparr>"
proof -
  have "\<not> has_function assignment_code"
    by code_simp
  moreover have "userProgress sample_db =
     [\<lparr> userId = str ''demo_user'', problemId = 1, isCompleted = True, attempts = 3,
        bestTime = Some 120, hintsUsed = 0 \<rparr>]"
    by (simp add: sample_db_def)
  moreover have "body_user_id (submit_request_of assignment_code) = str ''demo_user''"
    and "body_problem_id (submit_request_of assignment_code) = 1"
    by (simp_all add: submit_request_of_def)
  ultimately show ?thesis
    by (simp add: sample_results success_submit progress_submit)
qed

text \<open>
  C3, amended. The progress that a submission returns does not depend on any progress
  recorded before: \<open>is_completed\<close> is the verdict of this submission, \<open>attempts\<close> is 1,
  and \<open>best_time\<close> is the execution time of a successful submission and \<^verbatim>\<open>null\<close>
  otherwise. The answer is the same for every content of the table \<^verbatim>\<open>user_progress\<close>.
\<close>

theorem progress_of_a_submission:
  assumes "body_code sreq = Some code"
    and "find (\<lambda>p. row_id p = body_problem_id sreq) (problems db) = Some row"
  shows "\<exists>r. submit_solution rt db sreq = Inr r
           \<and> progress r =
               \<lparr> is_completed = success r, attempts = 1,
                 best_time = (if success r then Some (execution_time r) else None) \<rparr>
           \<and> (\<forall>rows. submit_solution rt (db\<lparr>userProgress := rows\<rparr>) sreq = Inr r)"
proof -
  have "submit_solution rt db sreq = Inr (evaluate_submit rt row code)"
    using assms by (rule submit_solution_evaluates)
  moreover have "submit_solution rt (db\<lparr>userProgress := rows\<rparr>) sreq
                   = Inr (evaluate_submit rt row code)" for rows
    using assms by (simp add: submit_solution_evaluates)
  ultimately show ?thesis
    by (simp add: progress_submit)
qed

theorem progress_of_a_submission_witness:
  "\<exists>r. submit_solution sample_runtime sample_db (submit_request_of assignment_code) = Inr r
           \<and> progress r =
               \<lparr> is_completed = success r, attempts = 1,
                 best_time = (if success r then Some (execution_time r) else None) \<rparr>
           \<and> (\<forall>rows. submit_solution sample_runtime (sample_db\<lparr>userProgress := rows\<rparr>)
                        (submit_request_of assignment_code) = Inr r)"
  by (rule progress_of_a_submission) simp_all

subsection \<open>The passing scenario\<close>

lemma js_includes_here: "js_includes (p @ t) p"
  using js_includes_iff [of "p @ t" p] by (metis append_Nil)

lemma js_includes_skip: "js_includes t p \<Longrightarrow> js_includes (s @ t) p"
  unfolding js_includes_iff by (metis append.assoc)

lemma js_includes_transcript_execute:
  "js_includes (success_transcript_execute functionName resultDisplay) resultDisplay"
  unfolding success_transcript_execute_def console_call_def append.assoc
  by (rule js_includes_here | rule js_includes_skip)+

lemma js_includes_transcript_submit:
  "js_includes (success_transcript_submit functionName resultDisplay executionTime) resultDisplay"
  unfolding success_transcript_submit_def console_call_def append.assoc
  by (rule js_includes_here | rule js_includes_skip)+

lemma output_success_submit:
  "success (evaluate_submit rt row code) \<Longrightarrow>
   outputMessage (evaluate_submit rt row code) =
     success_transcript_submit (function_name code) (business_card_display rt code)
       (number_to_string rt (real_of_int (execution_time (evaluate_submit rt row code))))"
  by (cases "content_check_submit row code") (auto simp: evaluate_submit_def Let_def)

lemma number_to_string_30: "number_to_string rt (real 30) = str ''30''"
  by (simp add: number_to_string_def decimal.simps [of 30] decimal.simps [of 3] str_def)

lemma ann_code_bindings:
  "js_match (quoted_binding (str ''name'')) ann_code = Some (str ''Ann'')"
  "js_match age_binding ann_code = Some (str ''30'')"
  "js_match (quoted_binding (str ''city'')) ann_code = Some (str ''Linz'')"
  "js_match (quoted_binding (str ''profession'')) ann_code = Some (str ''Engineer'')"
  "parseInt (str ''30'') = 30"
  by code_simp+

lemma ann_code_display:
  \<open>business_card_display rt ann_code = str ''('Ann', 30, 'Linz', 'Engineer')''\<close>
  unfolding business_card_display_def Let_def ann_code_bindings option.case
    number_to_string_30
  by (simp add: str_def)

lemma ann_code_structure:
  "has_function ann_code" "has_return ann_code"
  "syntax_errors_execute ann_code = []" "syntax_errors_submit ann_code = []"
  "function_name ann_code = str ''create_business_card''"
  "content_check_execute ann_code = (True, [])"
  by code_simp+

lemma ann_code_content_submit: "content_check_submit row ann_code = (True, [])"
proof -
  have "business_card_check
          (str ''Name variable must be assigned a non-empty string value'')
          (str ''Age variable must be assigned a positive number'')
          (str ''City variable must be assigned a non-empty string value'')
          (str ''Profession variable must be assigned a non-empty string value'')
          ann_code (True, []) = (True, [])"
    by code_simp
  then show ?thesis by (simp add: content_check_submit_def)
qed

text \<open>
  C6. For the business-card problem the code of the scenario (the definition of
  \<^verbatim>\<open>create_business_card\<close>, the four bindings \<^verbatim>\<open>"Ann"\<close>, \<^verbatim>\<open>30\<close>, \<^verbatim>\<open>"Linz"\<close>,
  \<^verbatim>\<open>"Engineer"\<close>, and the return of the tuple) has the verdict success in both
  handlers, and the transcript contains the tuple \<^verbatim>\<open>('Ann', 30, 'Linz', 'Engineer')\<close>.
\<close>

theorem business_card_scenario:
  assumes "body_code ereq = Some ann_code"
    and "body_test_cases ereq = Some tcs"
    and "body_code sreq = Some ann_code"
    and "find (\<lambda>p. row_id p = body_problem_id sreq) (problems db) = Some row"
    and "title row = str ''Personal Information Card''"
  shows \<open>(\<exists>r. execute_code rt ereq = Inr r \<and> success r
            \<and> js_includes (outputMessage r) (str ''('Ann', 30, 'Linz', 'Engineer')''))
       \<and> (\<exists>r. submit_solution rt db sreq = Inr r \<and> success r
            \<and> js_includes (outputMessage r) (str ''('Ann', 30, 'Linz', 'Engineer')''))\<close>
proof -
  let ?s = "evaluate_submit rt row ann_code"
  have "\<not> try_block_throws ann_code tcs"
    by (rule business_card_does_not_throw) (rule ann_code_structure)
  then obtain e where ex: "execute_code rt ereq = Inr e"
    and ev: "evaluate_execute rt ann_code tcs = Some e"
    using execute_code_answers [OF assms(1,2)] by blast
  have su: "submit_solution rt db sreq = Inr ?s"
    using assms(3,4) by (rule submit_solution_evaluates)
  have ee: "e = \<lparr> success = True,
            execution_time = random_execution_time rt,
            test_results =
              map (\<lambda>(index, testCase).
                     \<lparr> input = input testCase, expected = expected testCase,
                       test_case = index + 1, passed = True, actual = expected testCase,
                       case_error = None \<rparr>)
                  (enumerate 0 tcs),
            outputMessage =
              success_transcript_execute (str ''create_business_card'')
                (business_card_display rt ann_code),
            error = None \<rparr>"
    using evaluate_execute_business_card [of ann_code rt tcs] ev
    by (simp add: ann_code_structure)
  have se: "success e"
    by (simp add: ee)
  have ss: "success ?s"
    by (simp add: success_submit ann_code_structure ann_code_content_submit)
  have \<open>js_includes (outputMessage e) (str ''('Ann', 30, 'Linz', 'Engineer')'')\<close>
    using js_includes_transcript_execute [of "str ''create_business_card''"
        "business_card_display rt ann_code"]
    by (simp add: ee ann_code_display)
  moreover have \<open>js_includes (outputMessage ?s) (str ''('Ann', 30, 'Linz', 'Engineer')'')\<close>
    using js_includes_transcript_submit [of "function_name ann_code" "business_card_display rt ann_code"]
    by (simp add: output_success_submit [OF ss] ann_code_display)
  ultimately show ?thesis using ex su se ss by simp
qed

theorem business_card_scenario_witness:
  \<open>(\<exists>r. execute_code sample_runtime (execute_request_of ann_code) = Inr r \<and> success r
            \<and> js_includes (outputMessage r) (str ''('Ann', 30, 'Linz', 'Engineer')''))
       \<and> (\<exists>r. submit_solution sample_runtime sample_db (submit_request_of ann_code) = Inr r
            \<and> success r
            \<and> js_includes (outputMessage r) (str ''('Ann', 30, 'Linz', 'Engineer')''))\<close>
proof (rule business_card_scenario [where row = card_problem])
  show "title card_problem = str ''Personal Information Card''"
    by (simp add: card_problem_def)
qed simp_all

subsection \<open>What the matchers find\<close>

text \<open>
  A matcher fails exactly when every way of splitting the text fails in the continuation:
  the backtracking search is complete.
\<close>

lemma lit_None: "lit p s k = None \<longleftrightarrow> (\<forall>r. s = p @ r \<longrightarrow> k r = None)"
  by (induction p s k rule: lit.induct) auto

lemma star_None:
  "star P s k = None \<longleftrightarrow> (\<forall>ws r. s = ws @ r \<and> (\<forall>c\<in>set ws. P c) \<longrightarrow> k r = None)"
proof (induction s)
  case Nil
  then show ?case by simp
next
  case (Cons c cs)
  have split: "(\<forall>ws r. c # cs = ws @ r \<and> (\<forall>x\<in>set ws. P x) \<longrightarrow> k r = None)
      \<longleftrightarrow> k (c # cs) = None \<and> (P c \<longrightarrow> (\<forall>ws r. cs = ws @ r \<and> (\<forall>x\<in>set ws. P x) \<longrightarrow> k r = None))"
  proof
    assume l: "\<forall>ws r. c # cs = ws @ r \<and> (\<forall>x\<in>set ws. P x) \<longrightarrow> k r = None"
    show "k (c # cs) = None \<and> (P c \<longrightarrow> (\<forall>ws r. cs = ws @ r \<and> (\<forall>x\<in>set ws. P x) \<longrightarrow> k r = None))"
    proof (intro conjI impI allI)
      show "k (c # cs) = None" using l [rule_format, of "[]" "c # cs"] by simp
    next
      fix ws r
      assume "P c" and "cs = ws @ r \<and> (\<forall>x\<in>set ws. P x)"
      then show "k r = None" using l [rule_format, of "c # ws" r] by simp
    qed
  next
    assume r: "k (c # cs) = None \<and> (P c \<longrightarrow> (\<forall>ws r. cs = ws @ r \<and> (\<forall>x\<in>set ws. P x) \<longrightarrow> k r = None))"
    show "\<forall>ws r. c # cs = ws @ r \<and> (\<forall>x\<in>set ws. P x) \<longrightarrow> k r = None"
    proof (intro allI impI)
      fix ws rest
      assume a: "c # cs = ws @ rest \<and> (\<forall>x\<in>set ws. P x)"
      show "k rest = None"
      proof (cases ws)
        case Nil
        then show ?thesis using a r by simp
      next
        case (Cons x ws')
        with a have "P c" and "cs = ws' @ rest \<and> (\<forall>x\<in>set ws'. P x)" by auto
        then show ?thesis using r by blast
      qed
    qed
  qed
  have "star P (c # cs) k = None \<longleftrightarrow> k (c # cs) = None \<and> (P c \<longrightarrow> star P cs k = None)"
    by (auto split: option.splits)
  then show ?case
    unfolding split Cons.IH .
qed

lemma plus_capture_None:
  "plus_capture P s k = None \<longleftrightarrow>
     (\<forall>cap r. s = cap @ r \<and> cap \<noteq> [] \<and> (\<forall>c\<in>set cap. P c) \<longrightarrow> k cap r = None)"
proof (induction s arbitrary: k)
  case Nil
  then show ?case by simp
next
  case (Cons c cs)
  have split: "(\<forall>cap r. c # cs = cap @ r \<and> cap \<noteq> [] \<and> (\<forall>x\<in>set cap. P x) \<longrightarrow> k cap r = None)
      \<longleftrightarrow> (P c \<longrightarrow> k [c] cs = None
            \<and> (\<forall>cap r. cs = cap @ r \<and> cap \<noteq> [] \<and> (\<forall>x\<in>set cap. P x) \<longrightarrow> k (c # cap) r = None))"
  proof
    assume l: "\<forall>cap r. c # cs = cap @ r \<and> cap \<noteq> [] \<and> (\<forall>x\<in>set cap. P x) \<longrightarrow> k cap r = None"
    show "P c \<longrightarrow> k [c] cs = None
            \<and> (\<forall>cap r. cs = cap @ r \<and> cap \<noteq> [] \<and> (\<forall>x\<in>set cap. P x) \<longrightarrow> k (c # cap) r = None)"
    proof (intro impI conjI allI)
      assume "P c"
      then show "k [c] cs = None" using l [rule_format, of "[c]" cs] by simp
    next
      fix cap r
      assume "P c" and "cs = cap @ r \<and> cap \<noteq> [] \<and> (\<forall>x\<in>set cap. P x)"
      then show "k (c # cap) r = None" using l [rule_format, of "c # cap" r] by simp
    qed
  next
    assume r: "P c \<longrightarrow> k [c] cs = None
            \<and> (\<forall>cap r. cs = cap @ r \<and> cap \<noteq> [] \<and> (\<forall>x\<in>set cap. P x) \<longrightarrow> k (c # cap) r = None)"
    show "\<forall>cap r. c # cs = cap @ r \<and> cap \<noteq> [] \<and> (\<forall>x\<in>set cap. P x) \<longrightarrow> k cap r = None"
    proof (intro allI impI)
      fix cap rest
      assume a: "c # cs = cap @ rest \<and> cap \<noteq> [] \<and> (\<forall>x\<in>set cap. P x)"
      then obtain cap' where cap: "cap = c # cap'" and cs: "cs = cap' @ rest"
        by (cases cap) auto
      with a have pc: "P c" and all: "\<forall>x\<in>set cap'. P x" by auto
      show "k cap rest = None"
      proof (cases "cap' = []")
        case True
        then show ?thesis using r pc cap cs by simp
      next
        case False
        then show ?thesis using r pc cap cs all by simp
      qed
    qed
  qed
  have "plus_capture P (c # cs) k = None \<longleftrightarrow>
          (P c \<longrightarrow> k [c] cs = None \<and> plus_capture P cs (\<lambda>cap rest. k (c # cap) rest) = None)"
    by (auto split: option.splits)
  then show ?case
    unfolding split Cons.IH [of "\<lambda>cap rest. k (c # cap) rest"] .
qed

lemma js_match_None: "js_match m s = None \<longleftrightarrow> (\<forall>a r. s = a @ r \<longrightarrow> m r = None)"
proof (induction s)
  case Nil
  then show ?case by simp
next
  case (Cons c cs)
  have "(\<forall>a r. c # cs = a @ r \<longrightarrow> m r = None)
      \<longleftrightarrow> m (c # cs) = None \<and> (\<forall>a r. cs = a @ r \<longrightarrow> m r = None)"
    by (auto simp: Cons_eq_append_conv)
  then show ?case using Cons.IH by (auto split: option.splits)
qed

text \<open>
  The pattern of the age finds nothing exactly when the text has no \<^verbatim>\<open>age\<close>, white
  space, \<^verbatim>\<open>=\<close>, white space and a digit in a row.
\<close>

lemma age_binding_None:
  "js_match age_binding code = None \<longleftrightarrow>
     \<not> (\<exists>a ws1 ws2 d r.
           code = a @ str ''age'' @ ws1 @ str ''='' @ ws2 @ d # r
           \<and> (\<forall>c\<in>set ws1. is_space c) \<and> (\<forall>c\<in>set ws2. is_space c) \<and> is_digit d)"
proof
  assume none: "js_match age_binding code = None"
  show "\<not> (\<exists>a ws1 ws2 d r.
           code = a @ str ''age'' @ ws1 @ str ''='' @ ws2 @ d # r
           \<and> (\<forall>c\<in>set ws1. is_space c) \<and> (\<forall>c\<in>set ws2. is_space c) \<and> is_digit d)"
  proof
    assume "\<exists>a ws1 ws2 d r.
           code = a @ str ''age'' @ ws1 @ str ''='' @ ws2 @ d # r
           \<and> (\<forall>c\<in>set ws1. is_space c) \<and> (\<forall>c\<in>set ws2. is_space c) \<and> is_digit d"
    then obtain a ws1 ws2 d r where
      code: "code = a @ str ''age'' @ ws1 @ str ''='' @ ws2 @ d # r"
      and w1: "\<forall>c\<in>set ws1. is_space c" and w2: "\<forall>c\<in>set ws2. is_space c" and d: "is_digit d"
      by blast
    have "age_binding (str ''age'' @ ws1 @ str ''='' @ ws2 @ d # r) = None"
      using none code unfolding js_match_None by blast
    then have "plus_capture is_digit (d # r) (\<lambda>cap s. Some cap) = None"
      unfolding age_binding_def lit_None star_None using w1 w2 by blast
    then have "(\<lambda>cap s. Some cap) [d] r = None"
      unfolding plus_capture_None using d by (metis append_Cons append_Nil empty_iff empty_set
          list.distinct(1) set_ConsD)
    then show False by simp
  qed
next
  assume no: "\<not> (\<exists>a ws1 ws2 d r.
           code = a @ str ''age'' @ ws1 @ str ''='' @ ws2 @ d # r
           \<and> (\<forall>c\<in>set ws1. is_space c) \<and> (\<forall>c\<in>set ws2. is_space c) \<and> is_digit d)"
  show "js_match age_binding code = None"
    unfolding js_match_None age_binding_def lit_None star_None plus_capture_None
  proof (intro allI impI)
    fix a r r1 ws1 r2 r3 ws2 r4 cap r5
    assume "code = a @ r" "r = str ''age'' @ r1" "r1 = ws1 @ r2 \<and> (\<forall>c\<in>set ws1. is_space c)"
      "r2 = str ''='' @ r3" "r3 = ws2 @ r4 \<and> (\<forall>c\<in>set ws2. is_space c)"
      "r4 = cap @ r5 \<and> cap \<noteq> [] \<and> (\<forall>c\<in>set cap. is_digit c)"
    moreover from this obtain d cap' where "cap = d # cap'" and "is_digit d"
      by (cases cap) auto
    ultimately have "code = a @ str ''age'' @ ws1 @ str ''='' @ ws2 @ d # (cap' @ r5)
        \<and> (\<forall>c\<in>set ws1. is_space c) \<and> (\<forall>c\<in>set ws2. is_space c) \<and> is_digit d"
      by simp
    with no show "Some cap = None" by blast
  qed
qed

subsection \<open>The age binding\<close>

lemma business_card_check_age:
  assumes "not_positive (js_match age_binding code)"
  shows "\<not> fst (business_card_check m1 m2 m3 m4 code (True, []))"
    and "m2 \<in> set (snd (business_card_check m1 m2 m3 m4 code (True, [])))"
  using assms unfolding business_card_check_def Let_def
  by (auto simp: reject_def)

lemma passed_execute:
  "evaluate_execute rt code tcs = Some r \<Longrightarrow> t \<in> set (test_results r) \<Longrightarrow>
   passed t = success r"
  by (auto simp: test_results_execute)

lemma number_to_string_2: "number_to_string rt (real 2) = str ''2''"
  by (simp add: number_to_string_def decimal.simps [of 2] str_def)

lemma fraction_code_bindings:
  "js_match (quoted_binding (str ''name'')) fraction_code = Some (str ''Ann'')"
  "js_match (quoted_binding (str ''city'')) fraction_code = Some (str ''Linz'')"
  "js_match (quoted_binding (str ''profession'')) fraction_code = Some (str ''Engineer'')"
  "parseInt (str ''2'') = 2"
  "function_name fraction_code = str ''create_business_card''"
  by code_simp+

lemma passed_submit:
  "t \<in> set (test_results (evaluate_submit rt row code)) \<Longrightarrow>
   passed t = success (evaluate_submit rt row code)"
  by (auto simp: test_results_submit)

lemma minus_one_code_structure:
  "has_function minus_one_code" "has_return minus_one_code"
  "syntax_errors_execute minus_one_code = []" "syntax_errors_submit minus_one_code = []"
  "js_includes minus_one_code (str ''create_business_card'')"
  "js_match age_binding minus_one_code = None"
  "content_check_execute minus_one_code = (False, [str ''Age must be a positive number''])"
  "business_card_check
     (str ''Name variable must be assigned a non-empty string value'')
     (str ''Age variable must be assigned a positive number'')
     (str ''City variable must be assigned a non-empty string value'')
     (str ''Profession variable must be assigned a non-empty string value'')
     minus_one_code (True, [])
   = (False, [str ''Age variable must be assigned a positive number''])"
  by code_simp+

lemma fraction_code_structure:
  "has_function fraction_code" "has_return fraction_code"
  "syntax_errors_execute fraction_code = []" "syntax_errors_submit fraction_code = []"
  "js_match age_binding fraction_code = Some (str ''2'')"
  "content_check_execute fraction_code = (True, [])"
  "business_card_check
     (str ''Name variable must be assigned a non-empty string value'')
     (str ''Age variable must be assigned a positive number'')
     (str ''City variable must be assigned a non-empty string value'')
     (str ''Profession variable must be assigned a non-empty string value'')
     fraction_code (True, [])
   = (True, [])"
  by code_simp+

text \<open>
  C7, as the claim states it, fails in its general part: the binding \<^verbatim>\<open>age = 2.5\<close> is
  not a positive integer, and the content validation of both handlers accepts it (the
  pattern reads the digit \<^verbatim>\<open>2\<close>); the verdict is success.
\<close>

theorem age_binding_counterexample:
  \<open>js_match age_binding fraction_code = Some (str ''2'')
   \<and> content_check_execute fraction_code = (True, [])
   \<and> content_check_submit card_problem fraction_code = (True, [])
   \<and> execute_code sample_runtime (execute_request_of fraction_code)
       = Inr \<lparr> success = True,
               execution_time = 100,
               test_results =
                 [\<lparr> input = JArray [], expected = card_expected, test_case = 1, passed = True,
                    actual = card_expected, case_error = None \<rparr>],
               outputMessage =
                 success_transcript_execute (str ''create_business_card'')
                   (str ''('Ann', 2, 'Linz', 'Engineer')''),
               error = None \<rparr>
   \<and> submit_solution sample_runtime sample_db (submit_request_of fraction_code)
       = Inr (evaluate_submit sample_runtime card_problem fraction_code)
   \<and> success (evaluate_submit sample_runtime card_problem fraction_code)\<close>
proof -
  have cs: "content_check_submit card_problem fraction_code = (True, [])"
    by (simp add: content_check_submit_def fraction_code_structure)
  have display: \<open>business_card_display sample_runtime fraction_code
                  = str ''('Ann', 2, 'Linz', 'Engineer')''\<close>
    unfolding business_card_display_def Let_def fraction_code_bindings
      fraction_code_structure option.case number_to_string_2
    by (simp add: str_def)
  have "execute_code sample_runtime (execute_request_of fraction_code)
       = Inr \<lparr> success = True,
               execution_time = 100,
               test_results =
                 [\<lparr> input = JArray [], expected = card_expected, test_case = 1, passed = True,
                    actual = card_expected, case_error = None \<rparr>],
               outputMessage =
                 success_transcript_execute (str ''create_business_card'')
                   (business_card_display sample_runtime fraction_code),
               error = None \<rparr>"
    using evaluate_execute_business_card [of fraction_code sample_runtime "testCases card_problem"]
    by (simp add: sample_results sample_cases sample_execution_time fraction_code_structure
        fraction_code_bindings)
  then show ?thesis
    using cs by (simp add: display sample_results(2) success_submit fraction_code_structure)
qed

text \<open>
  C7, amended. For the business-card problem the code of the scenario with \<^verbatim>\<open>age = -1\<close>
  has the verdict failure, the primary error that the age must be a positive number
  (in the transcript of \<^verbatim>\<open>/api/execute-code\<close>, in the top-level \<open>error\<close> of
  \<^verbatim>\<open>/api/submit-solution\<close>, each with the handler's wording) and \<open>passed\<close> false in
  every per-case result. More generally the content validation rejects a code, with that
  message among its errors, when the text has nowhere \<^verbatim>\<open>age\<close>, optional white space,
  \<^verbatim>\<open>=\<close>, optional white space and a digit in a row, or when the digits of the first
  such place denote zero. What follows the digits is not looked at.
\<close>

theorem age_must_be_positive:
  assumes "body_code ereq = Some code"
    and "body_test_cases ereq = Some tcs"
    and "body_code sreq = Some code"
    and "find (\<lambda>p. row_id p = body_problem_id sreq) (problems db) = Some row"
    and "title row = str ''Personal Information Card''"
    and "js_includes code (str ''create_business_card'')"
  shows "((\<not> (\<exists>a ws1 ws2 d r.
               code = a @ str ''age'' @ ws1 @ str ''='' @ ws2 @ d # r
               \<and> (\<forall>c\<in>set ws1. is_space c) \<and> (\<forall>c\<in>set ws2. is_space c) \<and> is_digit d)
           \<or> (\<exists>ds. js_match age_binding code = Some ds \<and> parseInt ds = 0))
          \<longrightarrow> (\<exists>r. execute_code rt ereq = Inr r \<and> \<not> success r
                 \<and> str ''Age must be a positive number'' \<in> set (snd (content_check_execute code))
                 \<and> (\<forall>t\<in>set (test_results r). \<not> passed t))
              \<and> (\<exists>r. submit_solution rt db sreq = Inr r \<and> \<not> success r
                 \<and> str ''Age variable must be assigned a positive number''
                     \<in> set (snd (content_check_submit row code))
                 \<and> (\<forall>t\<in>set (test_results r). \<not> passed t)))
       \<and> (code = minus_one_code
          \<longrightarrow> (\<exists>r. execute_code rt ereq = Inr r \<and> \<not> success r
                 \<and> outputMessage r =
                     failure_transcript_execute (str ''Age must be a positive number'')
                       True True True False
                 \<and> (\<forall>t\<in>set (test_results r). \<not> passed t))
              \<and> (\<exists>r. submit_solution rt db sreq = Inr r \<and> \<not> success r
                 \<and> error r = Some (str ''Age variable must be assigned a positive number'')
                 \<and> (\<forall>t\<in>set (test_results r). \<not> passed t)))"
proof -
  let ?s = "evaluate_submit rt row code"
  have su: "submit_solution rt db sreq = Inr ?s"
    using assms(3,4) by (rule submit_solution_evaluates)
  have rejected: "\<exists>r. execute_code rt ereq = Inr r \<and> evaluate_execute rt code tcs = Some r
      \<and> \<not> success r \<and> (\<forall>t\<in>set (test_results r). \<not> passed t)"
    if "\<not> fst (content_check_execute code)"
  proof -
    have "\<not> try_block_throws code tcs"
      using that by (intro failure_does_not_throw) simp
    then obtain r where ex: "execute_code rt ereq = Inr r"
      and ev: "evaluate_execute rt code tcs = Some r"
      using execute_code_answers [OF assms(1,2)] by blast
    have "\<not> success r"
      using that by (simp add: success_execute [OF ev])
    then show ?thesis
      using ex ev passed_execute [OF ev] by blast
  qed
  have general: "(\<exists>r. execute_code rt ereq = Inr r \<and> \<not> success r
                 \<and> str ''Age must be a positive number'' \<in> set (snd (content_check_execute code))
                 \<and> (\<forall>t\<in>set (test_results r). \<not> passed t))
      \<and> \<not> success ?s
      \<and> str ''Age variable must be assigned a positive number''
          \<in> set (snd (content_check_submit row code))
      \<and> (\<forall>t\<in>set (test_results ?s). \<not> passed t)"
    if "\<not> (\<exists>a ws1 ws2 d r.
               code = a @ str ''age'' @ ws1 @ str ''='' @ ws2 @ d # r
               \<and> (\<forall>c\<in>set ws1. is_space c) \<and> (\<forall>c\<in>set ws2. is_space c) \<and> is_digit d)
        \<or> (\<exists>ds. js_match age_binding code = Some ds \<and> parseInt ds = 0)"
  proof -
    from that have np: "not_positive (js_match age_binding code)"
      unfolding age_binding_None [symmetric] by (auto simp: not_positive_def)
    have ce: "\<not> fst (content_check_execute code)"
      and me: "str ''Age must be a positive number'' \<in> set (snd (content_check_execute code))"
      using business_card_check_age [OF np] assms(6) by (simp_all add: content_check_execute_def)
    have "\<not> fst (content_check_submit row code)"
      and "str ''Age variable must be assigned a positive number''
            \<in> set (snd (content_check_submit row code))"
      using business_card_check_age [OF np] assms(5) by (simp_all add: content_check_submit_def)
    then show ?thesis
      using rejected [OF ce] me by (auto simp: success_submit passed_submit)
  qed
  have scenario: "(\<exists>r. execute_code rt ereq = Inr r \<and> \<not> success r
                 \<and> outputMessage r =
                     failure_transcript_execute (str ''Age must be a positive number'')
                       True True True False
                 \<and> (\<forall>t\<in>set (test_results r). \<not> passed t))
      \<and> \<not> success ?s
      \<and> error ?s = Some (str ''Age variable must be assigned a positive number'')
      \<and> (\<forall>t\<in>set (test_results ?s). \<not> passed t)"
    if code: "code = minus_one_code"
  proof -
    have cs: "content_check_submit row code
                = (False, [str ''Age variable must be assigned a positive number''])"
      using assms(5) by (simp add: content_check_submit_def code minus_one_code_structure)
    have "\<not> fst (content_check_execute code)"
      by (simp add: code minus_one_code_structure)
    then obtain r where ex: "execute_code rt ereq = Inr r"
      and ev: "evaluate_execute rt code tcs = Some r" and fe: "\<not> success r"
      and pe: "\<forall>t\<in>set (test_results r). \<not> passed t"
      using rejected by blast
    have fs: "\<not> success ?s"
      by (simp add: success_submit cs)
    have "outputMessage r =
          failure_transcript_execute (str ''Age must be a positive number'') True True True False"
      unfolding output_failure_execute [OF ev fe]
      by (simp add: code minus_one_code_structure primary_error_execute_def)
    moreover have "error ?s = Some (str ''Age variable must be assigned a positive number'')"
      using fs cs
      by (simp add: error_submit error_message_submit_def code minus_one_code_structure)
    ultimately show ?thesis
      using ex fe pe fs by (auto simp: passed_submit)
  qed
  show ?thesis
    using general scenario su by simp
qed

theorem age_must_be_positive_witness:
  "js_match age_binding minus_one_code = None
   \<and> (\<exists>r. execute_code sample_runtime (execute_request_of minus_one_code) = Inr r \<and> \<not> success r
          \<and> str ''Age must be a positive number''
              \<in> set (snd (content_check_execute minus_one_code))
          \<and> outputMessage r =
              failure_transcript_execute (str ''Age must be a positive number'')
                True True True False
          \<and> (\<forall>t\<in>set (test_results r). \<not> passed t))
   \<and> (\<exists>r. submit_solution sample_runtime sample_db (submit_request_of minus_one_code) = Inr r
          \<and> \<not> success r
          \<and> str ''Age variable must be assigned a positive number''
              \<in> set (snd (content_check_submit card_problem minus_one_code))
          \<and> error r = Some (str ''Age variable must be assigned a positive number'')
          \<and> (\<forall>t\<in>set (test_results r). \<not> passed t))"
proof -
  have none: "js_match age_binding minus_one_code = None"
    by (rule minus_one_code_structure)
  then have no: "\<not> (\<exists>a ws1 ws2 d r.
               minus_one_code = a @ str ''age'' @ ws1 @ str ''='' @ ws2 @ d # r
               \<and> (\<forall>c\<in>set ws1. is_space c) \<and> (\<forall>c\<in>set ws2. is_space c) \<and> is_digit d)"
    unfolding age_binding_None .
  have "body_code (execute_request_of minus_one_code) = Some minus_one_code"
    and "body_test_cases (execute_request_of minus_one_code) = Some (testCases card_problem)"
    and "body_code (submit_request_of minus_one_code) = Some minus_one_code"
    and "find (\<lambda>p. row_id p = body_problem_id (submit_request_of minus_one_code))
           (problems sample_db) = Some card_problem"
    and "title card_problem = str ''Personal Information Card''"
    and "js_includes minus_one_code (str ''create_business_card'')"
    by (simp_all add: minus_one_code_structure)
  from age_must_be_positive [OF this, of sample_runtime] no none show ?thesis
    by (auto simp: sample_results(2))
qed

subsection \<open>The reported execution time\<close>

lemma execution_time_execute:
  "evaluate_execute rt code tcs = Some r \<Longrightarrow> execution_time r = random_execution_time rt"
  by (cases "content_check_execute code") (auto simp: evaluate_execute_def Let_def)

lemma execution_time_submit:
  "execution_time (evaluate_submit rt row code) = random_execution_time rt"
  by (cases "content_check_submit row code") (simp add: evaluate_submit_def Let_def)

text \<open>
  C9. When \<^verbatim>\<open>Math.random()\<close> returns what it is specified to return, a double that is
  at least 0 and less than 1, the execution time that either handler reports for a
  submission it evaluates is an integer from 50 up to 149. In \<^verbatim>\<open>/api/execute-code\<close>
  the \<^verbatim>\<open>try\<close> block must not throw: the answer of the \<^verbatim>\<open>catch\<close> block carries the
  execution time 0.
\<close>

theorem execution_time_in_range:
  assumes "runtime_ok rt"
    and "body_code ereq = Some code"
    and "body_test_cases ereq = Some tcs"
    and "\<not> try_block_throws code tcs"
    and "body_code sreq = Some code'"
    and "find (\<lambda>p. row_id p = body_problem_id sreq) (problems db) = Some row"
  shows "(\<exists>r. execute_code rt ereq = Inr r \<and> 50 \<le> execution_time r \<and> execution_time r < 150)
       \<and> (\<exists>r. submit_solution rt db sreq = Inr r \<and> 50 \<le> execution_time r
              \<and> execution_time r < 150)"
proof -
  obtain e where "execute_code rt ereq = Inr e" and "evaluate_execute rt code tcs = Some e"
    using execute_code_answers [OF assms(2,3,4)] by blast
  moreover have "submit_solution rt db sreq = Inr (evaluate_submit rt row code')"
    using assms(5,6) by (rule submit_solution_evaluates)
  ultimately show ?thesis
    using random_execution_time_range [OF assms(1)]
    by (simp add: execution_time_execute execution_time_submit)
qed

theorem execution_time_in_range_witness:
  "runtime_ok sample_runtime
   \<and> \<not> try_block_throws add_code add_cases
   \<and> (\<exists>r. execute_code sample_runtime add_request = Inr r
          \<and> 50 \<le> execution_time r \<and> execution_time r < 150 \<and> execution_time r = 100)
   \<and> (\<exists>r. submit_solution sample_runtime sample_db (submit_request_of ann_code) = Inr r
          \<and> 50 \<le> execution_time r \<and> execution_time r < 150 \<and> execution_time r = 100)"
proof -
  obtain e where e: "execute_code sample_runtime add_request = Inr e"
    and "evaluate_execute sample_runtime add_code add_cases = Some e"
    using execute_code_answers [of add_request add_code add_cases sample_runtime] by auto
  then have t: "execution_time e = 100"
    by (simp add: execution_time_execute sample_execution_time)
  have "runtime_ok sample_runtime"
    and "body_code add_request = Some add_code"
    and "body_test_cases add_request = Some add_cases"
    and "\<not> try_block_throws add_code add_cases"
    and "body_code (submit_request_of ann_code) = Some ann_code"
    and "find (\<lambda>p. row_id p = body_problem_id (submit_request_of ann_code)) (problems sample_db)
           = Some card_problem"
    by (simp_all add: sample_runtime_ok)
  from execution_time_in_range [OF this] show ?thesis
    using e t
    by (simp add: submit_solution_evaluates sample_runtime_ok execution_time_submit
        sample_execution_time)
qed

end
